theory Spec2Isabelle
  imports Complex_Main
begin

section \<open>pymeschooldata: the rpy2 wrapper of the meschooldata R package\<close>

text \<open>
  The development embeds \<^verbatim>\<open>pymeschooldata/core.py\<close>. The module keeps one global,
  \<^verbatim>\<open>_pkg\<close>, and offers four operations that obtain the R package through
  \<^verbatim>\<open>_get_pkg\<close>, call one entry point of the package and hand the result back.
  Everything outside the module (rpy2's \<^verbatim>\<open>importr\<close>, \<^verbatim>\<open>IntVector\<close>, the pandas
  converter, the R package itself) is a parameter of the model; Python's own builtins
  (\<^verbatim>\<open>int\<close>, subscripting, iteration) are written out for the values modelled.
\<close>

subsection \<open>Python values and exceptions\<close>

text \<open>
  A Python \<^verbatim>\<open>float\<close> is used by the module only as an argument of \<^verbatim>\<open>int\<close>; a finite
  float is represented by its exact rational value.
\<close>

datatype pyfloat = Finite rat | NaN | PosInf | NegInf

text \<open>
  The values that occur as entries, names and arguments. A \<^verbatim>\<open>str\<close> is a list of code
  points below 256. \<open>PySeq\<close> is a list or an R vector: an object with integer subscripts
  and iteration, and without a conversion to \<^verbatim>\<open>int\<close>. \<open>PyOpaque t\<close> is any other
  object of type \<open>t\<close>: no conversion to \<^verbatim>\<open>int\<close>, no subscripts, no iteration (a bound
  method, for instance).
\<close>

datatype pyval =
    PyNone
  | PyBool bool
  | PyInt int
  | PyFloat pyfloat
  | PyStr string
  | PySeq "pyval list"
  | PyOpaque string

text \<open>
  An exception raised by rpy2 or by R: its class name and its message. The module never
  inspects one.
\<close>

datatype foreign_error = ForeignExc string string

text \<open>
  The four messages of \<^verbatim>\<open>TypeError\<close> that can arise. \<open>UnexpectedReturnType t\<close> is the
  \<^verbatim>\<open>TypeError(f"Unexpected return type from get_available_years: {type(r_result)}")\<close>
  of line 148, with \<open>t\<close> the name of \<^verbatim>\<open>type(r_result)\<close>; the other three come from the
  builtins and carry the name of the offending type.
\<close>

datatype type_error =
    UnexpectedReturnType string
  | IntArgument string
  | NotSubscriptable string
  | NotIterable string

datatype py_error =
    KeyError string
  | IndexError
  | TypeError type_error
  | ValueError
  | OverflowError
  | Foreign foreign_error

fun type_name :: "pyval \<Rightarrow> string" where
  "type_name PyNone = ''NoneType''"
| "type_name (PyBool _) = ''bool''"
| "type_name (PyInt _) = ''int''"
| "type_name (PyFloat _) = ''float''"
| "type_name (PyStr _) = ''str''"
| "type_name (PySeq _) = ''list''"
| "type_name (PyOpaque t) = t"

subsection \<open>The builtin \<^verbatim>\<open>int\<close>\<close>

text \<open>
  \<^verbatim>\<open>int(s)\<close> for a string: surrounding whitespace is dropped, one sign is allowed, and
  the rest is decimal digits with single underscores between digits. (The interpreter's
  configurable limit on the number of digits is not modelled.)
\<close>

definition is_space :: "char \<Rightarrow> bool" where
  "is_space c = ((of_char c :: nat) \<in> {9, 10, 11, 12, 13, 32, 133, 160})"

definition is_digit :: "char \<Rightarrow> bool" where
  "is_digit c = (48 \<le> (of_char c :: nat) \<and> (of_char c :: nat) \<le> 57)"

definition digit_val :: "char \<Rightarrow> int" where
  "digit_val c = int (of_char c) - 48"

fun dec_digits :: "string \<Rightarrow> int \<Rightarrow> bool \<Rightarrow> int option" where
  "dec_digits [] acc after_digit = (if after_digit then Some acc else None)"
| "dec_digits (c # cs) acc after_digit =
     (if is_digit c then dec_digits cs (10 * acc + digit_val c) True
      else if c = CHR ''_'' \<and> after_digit then dec_digits cs acc False
      else None)"

definition strip :: "string \<Rightarrow> string" where
  "strip s = rev (dropWhile is_space (rev (dropWhile is_space s)))"

definition int_of_str :: "string \<Rightarrow> py_error + int" where
  "int_of_str s =
     (case strip s of
        [] \<Rightarrow> Inl ValueError
      | c # cs \<Rightarrow>
          (if c = CHR ''-'' then
             (case dec_digits cs 0 False of None \<Rightarrow> Inl ValueError | Some n \<Rightarrow> Inr (- n))
           else if c = CHR ''+'' then
             (case dec_digits cs 0 False of None \<Rightarrow> Inl ValueError | Some n \<Rightarrow> Inr n)
           else
             (case dec_digits (c # cs) 0 False of None \<Rightarrow> Inl ValueError | Some n \<Rightarrow> Inr n)))"

text \<open>\<^verbatim>\<open>int(x)\<close> for a float truncates towards zero; NaN and the infinities raise.\<close>

fun int_of_float :: "pyfloat \<Rightarrow> py_error + int" where
  "int_of_float (Finite q) = Inr (if 0 \<le> q then \<lfloor>q\<rfloor> else \<lceil>q\<rceil>)"
| "int_of_float NaN = Inl ValueError"
| "int_of_float PosInf = Inl OverflowError"
| "int_of_float NegInf = Inl OverflowError"

fun py_int :: "pyval \<Rightarrow> py_error + int" where
  "py_int (PyInt n) = Inr n"
| "py_int (PyBool b) = Inr (if b then 1 else 0)"
| "py_int (PyFloat x) = int_of_float x"
| "py_int (PyStr s) = int_of_str s"
| "py_int v = Inl (TypeError (IntArgument (type_name v)))"

subsection \<open>Subscripts and iteration\<close>

text \<open>\<^verbatim>\<open>v[i]\<close> for an index \<open>i \<ge> 0\<close>.\<close>

fun py_getitem :: "pyval \<Rightarrow> nat \<Rightarrow> py_error + pyval" where
  "py_getitem (PySeq xs) i = (if i < length xs then Inr (xs ! i) else Inl IndexError)"
| "py_getitem (PyStr s) i = (if i < length s then Inr (PyStr [s ! i]) else Inl IndexError)"
| "py_getitem v i = Inl (TypeError (NotSubscriptable (type_name v)))"

text \<open>
  Lines 142 and 144: \<^verbatim>\<open>list(names_attr)\<close> when \<^verbatim>\<open>names_attr.__iter__\<close> is callable,
  otherwise \<^verbatim>\<open>names_attr\<close> itself, which \<^verbatim>\<open>enumerate\<close> then refuses to iterate.
\<close>

fun names_list :: "pyval \<Rightarrow> py_error + pyval list" where
  "names_list (PySeq xs) = Inr xs"
| "names_list (PyStr s) = Inr (map (\<lambda>c. PyStr [c]) s)"
| "names_list v = Inl (TypeError (NotIterable (type_name v)))"

subsection \<open>The value returned by the R function \<^verbatim>\<open>get_available_years\<close>\<close>

text \<open>
  \<^verbatim>\<open>r_result\<close> is whatever rpy2's conversion produced. The module observes it in five
  ways, and the record holds the answer to each:
  \<^item> \<open>obj_type\<close>: \<^verbatim>\<open>type(r_result)\<close>, by its name;
  \<^item> \<open>mapping\<close>: the entries of the dict, when \<^verbatim>\<open>isinstance(r_result, dict)\<close>;
  \<^item> \<open>attr_rx2\<close>: the method \<^verbatim>\<open>rx2\<close>, when \<^verbatim>\<open>hasattr(r_result, "rx2")\<close>; it runs in R
    and may fail there;
  \<^item> \<open>attr_names\<close>: the attribute \<^verbatim>\<open>names\<close>, when there is one;
  \<^item> \<open>positional\<close>: the values that \<^verbatim>\<open>r_result[i]\<close> reads, when the object takes
    integer subscripts.
  The fields are independent, so an object can have several of the shapes at once.
\<close>

record pyobject =
  obj_type :: string
  mapping :: "(string \<rightharpoonup> pyval) option"
  attr_rx2 :: "(string \<Rightarrow> foreign_error + pyval) option"
  attr_names :: "pyval option"
  positional :: "pyval list option"

text \<open>\<^verbatim>\<open>getattr(r_result, "names", None)\<close>.\<close>

definition getattr_names :: "pyobject \<Rightarrow> pyval" where
  "getattr_names obj = (case attr_names obj of None \<Rightarrow> PyNone | Some v \<Rightarrow> v)"

text \<open>\<^verbatim>\<open>r_result[i]\<close> for an integer \<open>i \<ge> 0\<close>.\<close>

definition item :: "pyobject \<Rightarrow> nat \<Rightarrow> py_error + pyval" where
  "item obj i =
     (case positional obj of
        None \<Rightarrow> Inl (TypeError (NotSubscriptable (obj_type obj)))
      | Some xs \<Rightarrow> if i < length xs then Inr (xs ! i) else Inl IndexError)"

text \<open>\<^verbatim>\<open>r_result[key]\<close> for a dict.\<close>

definition dict_get :: "(string \<rightharpoonup> pyval) \<Rightarrow> string \<Rightarrow> py_error + pyval" where
  "dict_get m k = (case m k of None \<Rightarrow> Inl (KeyError k) | Some v \<Rightarrow> Inr v)"

text \<open>
  Line 145 and line 146: \<^verbatim>\<open>name in ("min_year", "max_year")\<close> holds for these two
  strings only, and \<^verbatim>\<open>result[name]\<close> then writes under that string.
\<close>

fun year_key :: "pyval \<Rightarrow> string option" where
  "year_key (PyStr s) = (if s = ''min_year'' \<or> s = ''max_year'' then Some s else None)"
| "year_key v = None"

subsection \<open>Lines 127 to 148: the year range from \<^verbatim>\<open>r_result\<close>\<close>

text \<open>
  The loop of lines 144 to 146, from position \<open>i\<close> on, with \<open>result\<close> the dict built so
  far. An exception leaves the loop and the function.
\<close>

fun scan_names :: "pyobject \<Rightarrow> nat \<Rightarrow> pyval list \<Rightarrow> (string \<rightharpoonup> int) \<Rightarrow> py_error + (string \<rightharpoonup> int)" where
  "scan_names obj i [] result = Inr result"
| "scan_names obj i (name # rest) result =
     (case year_key name of
        Some k \<Rightarrow>
          (case item obj i of
             Inl e \<Rightarrow> Inl e
           | Inr v \<Rightarrow>
               (case py_int v of
                  Inl e \<Rightarrow> Inl e
                | Inr n \<Rightarrow> scan_names obj (Suc i) rest (result(k \<mapsto> n))))
      | None \<Rightarrow> scan_names obj (Suc i) rest result)"

text \<open>Line 136 and line 137: \<^verbatim>\<open>int(r_result.rx2(key)[0])\<close>.\<close>

definition rx2_first_int :: "(string \<Rightarrow> foreign_error + pyval) \<Rightarrow> string \<Rightarrow> py_error + int" where
  "rx2_first_int f k =
     (case f k of
        Inl e \<Rightarrow> Inl (Foreign e)
      | Inr vec \<Rightarrow> (case py_getitem vec 0 of Inl e \<Rightarrow> Inl e | Inr v \<Rightarrow> py_int v))"

text \<open>Line 130 and line 131: \<^verbatim>\<open>int(r_result[key])\<close>.\<close>

definition dict_int :: "(string \<rightharpoonup> pyval) \<Rightarrow> string \<Rightarrow> py_error + int" where
  "dict_int m k = (case dict_get m k of Inl e \<Rightarrow> Inl e | Inr v \<Rightarrow> py_int v)"

definition normalize_years :: "pyobject \<Rightarrow> py_error + (string \<rightharpoonup> int)" where
  "normalize_years r_result =
     (case mapping r_result of
        Some m \<Rightarrow>
          (case dict_int m ''min_year'' of
             Inl e \<Rightarrow> Inl e
           | Inr lo \<Rightarrow>
               (case dict_int m ''max_year'' of
                  Inl e \<Rightarrow> Inl e
                | Inr hi \<Rightarrow> Inr [''min_year'' \<mapsto> lo, ''max_year'' \<mapsto> hi]))
      | None \<Rightarrow>
          (case attr_rx2 r_result of
             Some f \<Rightarrow>
               (case rx2_first_int f ''min_year'' of
                  Inl e \<Rightarrow> Inl e
                | Inr lo \<Rightarrow>
                    (case rx2_first_int f ''max_year'' of
                       Inl e \<Rightarrow> Inl e
                     | Inr hi \<Rightarrow> Inr [''min_year'' \<mapsto> lo, ''max_year'' \<mapsto> hi]))
           | None \<Rightarrow>
               (let names_attr = getattr_names r_result in
                if names_attr \<noteq> PyNone then
                  (case names_list names_attr of
                     Inl e \<Rightarrow> Inl e
                   | Inr names \<Rightarrow> scan_names r_result 0 names Map.empty)
                else Inl (TypeError (UnexpectedReturnType (obj_type r_result))))))"

subsection \<open>The package, the bridge and the module's state\<close>

text \<open>
  A table as the module sees one: a pandas \<^verbatim>\<open>DataFrame\<close>, an R data frame, or some
  other object. The content (named columns) is passed through and never read.
\<close>

type_synonym table = "(string \<times> pyval list) list"

datatype tabular = PandasDataFrame table | RDataFrame table | NonTabular string

text \<open>\<^verbatim>\<open>isinstance(x, pd.DataFrame)\<close>.\<close>

fun is_pandas :: "tabular \<Rightarrow> bool" where
  "is_pandas (PandasDataFrame t) = True"
| "is_pandas v = False"

text \<open>A data frame of either side.\<close>

fun is_table :: "tabular \<Rightarrow> bool" where
  "is_table (NonTabular s) = False"
| "is_table v = True"

text \<open>
  The object \<^verbatim>\<open>importr\<close> returns: its identity and the four entry points of the R
  package that the module calls, each of which may fail in R. The entry points are
  functions of their argument: the data source is taken to be stable.
\<close>

record rpackage =
  pkg_id :: nat
  r_fetch_enr :: "pyval \<Rightarrow> foreign_error + tabular"
  r_fetch_enr_multi :: "int list \<Rightarrow> foreign_error + tabular"
  r_tidy_enr :: "tabular \<Rightarrow> foreign_error + tabular"
  r_get_available_years :: "foreign_error + pyobject"

text \<open>
  What the module uses of rpy2. \<open>importr n name\<close> is the outcome of the call
  \<^verbatim>\<open>importr(name)\<close> made after \<open>n\<close> earlier calls, so that a package can be missing at
  one time and installed later. \<open>int_vector\<close> is \<^verbatim>\<open>robjects.IntVector\<close>, \<open>py2rpy\<close>
  and \<open>rpy2py\<close> are the functions of \<^verbatim>\<open>pandas2ri\<close>.
\<close>

record bridge =
  importr :: "nat \<Rightarrow> string \<Rightarrow> foreign_error + rpackage"
  int_vector :: "pyval \<Rightarrow> foreign_error + int list"
  py2rpy :: "tabular \<Rightarrow> foreign_error + tabular"
  rpy2py :: "tabular \<Rightarrow> foreign_error + tabular"

text \<open>
  The state: the global \<^verbatim>\<open>_pkg\<close> (line 12), and the trace of the calls made so far to
  \<^verbatim>\<open>importr\<close> (with their success) and to the entry points of the package. The trace is
  not a variable of the module; it records its effects.
\<close>

datatype event = Import string bool | Call string

record world =
  pkg_global :: "rpackage option"
  trace :: "event list"

definition initial_world :: world where
  "initial_world = \<lparr>pkg_global = None, trace = []\<rparr>"

fun is_import :: "event \<Rightarrow> bool" where
  "is_import (Import name ok) = True"
| "is_import (Call name) = False"

fun is_load :: "event \<Rightarrow> bool" where
  "is_load (Import name ok) = ok"
| "is_load (Call name) = False"

definition import_attempts :: "world \<Rightarrow> nat" where
  "import_attempts w = length (filter is_import (trace w))"

definition loads :: "world \<Rightarrow> nat" where
  "loads w = length (filter is_load (trace w))"

definition log_event :: "event \<Rightarrow> world \<Rightarrow> world" where
  "log_event ev w = w\<lparr>trace := trace w @ [ev]\<rparr>"

subsection \<open>Lines 15 to 20: \<^verbatim>\<open>_get_pkg\<close>\<close>

definition get_pkg :: "bridge \<Rightarrow> world \<Rightarrow> (py_error + rpackage) \<times> world" where
  "get_pkg br w =
     (case pkg_global w of
        None \<Rightarrow>
          (case importr br (import_attempts w) ''meschooldata'' of
             Inl e \<Rightarrow> (Inl (Foreign e), log_event (Import ''meschooldata'' False) w)
           | Inr p \<Rightarrow>
               (Inr p, log_event (Import ''meschooldata'' True) (w\<lparr>pkg_global := Some p\<rparr>)))
      | Some p \<Rightarrow> (Inr p, w))"

subsection \<open>The four operations\<close>

text \<open>
  Lines 47 to 49, 75 to 77 and 104 to 106: a \<^verbatim>\<open>DataFrame\<close> is returned as it is,
  anything else goes through \<^verbatim>\<open>pandas2ri.rpy2py\<close>.
\<close>

definition to_pandas :: "bridge \<Rightarrow> tabular \<Rightarrow> py_error + tabular" where
  "to_pandas br r_df =
     (if is_pandas r_df then Inr r_df
      else (case rpy2py br r_df of Inl e \<Rightarrow> Inl (Foreign e) | Inr df \<Rightarrow> Inr df))"

definition fetch_enr :: "bridge \<Rightarrow> pyval \<Rightarrow> world \<Rightarrow> (py_error + tabular) \<times> world" where
  "fetch_enr br end_year w =
     (case get_pkg br w of
        (Inl e, w1) \<Rightarrow> (Inl e, w1)
      | (Inr pkg, w1) \<Rightarrow>
          (case r_fetch_enr pkg end_year of
             Inl e \<Rightarrow> (Inl (Foreign e), log_event (Call ''fetch_enr'') w1)
           | Inr r_df \<Rightarrow> (to_pandas br r_df, log_event (Call ''fetch_enr'') w1)))"

definition fetch_enr_multi :: "bridge \<Rightarrow> pyval \<Rightarrow> world \<Rightarrow> (py_error + tabular) \<times> world" where
  "fetch_enr_multi br end_years w =
     (case get_pkg br w of
        (Inl e, w1) \<Rightarrow> (Inl e, w1)
      | (Inr pkg, w1) \<Rightarrow>
          (case int_vector br end_years of
             Inl e \<Rightarrow> (Inl (Foreign e), w1)
           | Inr r_years \<Rightarrow>
               (case r_fetch_enr_multi pkg r_years of
                  Inl e \<Rightarrow> (Inl (Foreign e), log_event (Call ''fetch_enr_multi'') w1)
                | Inr r_df \<Rightarrow> (to_pandas br r_df, log_event (Call ''fetch_enr_multi'') w1))))"

definition tidy_enr :: "bridge \<Rightarrow> tabular \<Rightarrow> world \<Rightarrow> (py_error + tabular) \<times> world" where
  "tidy_enr br df w =
     (case get_pkg br w of
        (Inl e, w1) \<Rightarrow> (Inl e, w1)
      | (Inr pkg, w1) \<Rightarrow>
          (case py2rpy br df of
             Inl e \<Rightarrow> (Inl (Foreign e), w1)
           | Inr r_df \<Rightarrow>
               (case r_tidy_enr pkg r_df of
                  Inl e \<Rightarrow> (Inl (Foreign e), log_event (Call ''tidy_enr'') w1)
                | Inr r_result \<Rightarrow> (to_pandas br r_result, log_event (Call ''tidy_enr'') w1))))"

definition get_available_years :: "bridge \<Rightarrow> world \<Rightarrow> (py_error + (string \<rightharpoonup> int)) \<times> world" where
  "get_available_years br w =
     (case get_pkg br w of
        (Inl e, w1) \<Rightarrow> (Inl e, w1)
      | (Inr pkg, w1) \<Rightarrow>
          (case r_get_available_years pkg of
             Inl e \<Rightarrow> (Inl (Foreign e), log_event (Call ''get_available_years'') w1)
           | Inr r_result \<Rightarrow>
               (normalize_years r_result, log_event (Call ''get_available_years'') w1)))"

subsection \<open>Calls from outside\<close>

text \<open>
  A caller of the module makes one call after another; an exception ends the call that
  raised it and nothing else. \<open>run_calls\<close> is the state after a sequence of calls.
\<close>

datatype call =
    GetPkg
  | FetchEnr pyval
  | FetchEnrMulti pyval
  | TidyEnr tabular
  | GetAvailableYears

datatype py_return = Handle rpackage | Table tabular | YearRange "string \<rightharpoonup> int"

definition returning :: "('a \<Rightarrow> py_return) \<Rightarrow> (py_error + 'a) \<times> world \<Rightarrow> (py_error + py_return) \<times> world" where
  "returning wrap r = (case r of (Inl e, w) \<Rightarrow> (Inl e, w) | (Inr x, w) \<Rightarrow> (Inr (wrap x), w))"

fun run_call :: "bridge \<Rightarrow> call \<Rightarrow> world \<Rightarrow> (py_error + py_return) \<times> world" where
  "run_call br GetPkg w = returning Handle (get_pkg br w)"
| "run_call br (FetchEnr end_year) w = returning Table (fetch_enr br end_year w)"
| "run_call br (FetchEnrMulti end_years) w = returning Table (fetch_enr_multi br end_years w)"
| "run_call br (TidyEnr df) w = returning Table (tidy_enr br df w)"
| "run_call br GetAvailableYears w = returning YearRange (get_available_years br w)"

fun run_calls :: "bridge \<Rightarrow> call list \<Rightarrow> world \<Rightarrow> world" where
  "run_calls br [] w = w"
| "run_calls br (c # cs) w = run_calls br cs (snd (run_call br c w))"

text \<open>The cache and the trace agree: the package was loaded once if the global is set,
  and never if it is not.\<close>

definition cache_consistent :: "world \<Rightarrow> bool" where
  "cache_consistent w = (loads w = (case pkg_global w of None \<Rightarrow> 0 | Some p \<Rightarrow> 1))"

subsection \<open>The normalization policy in the words of the specification\<close>

text \<open>
  The specification describes lines 127 to 148 as a decoding in two steps: the first
  shape that applies is chosen, in the order native mapping, name-indexed extraction,
  names beside positional values; then the value is decoded as that shape. The
  definitions of this subsection follow that description and use none of the
  definitions made from the source above (but the types, and \<open>type_name\<close>); they are
  compared with \<open>normalize_years\<close> below.
\<close>

datatype shape =
    NativeMapping "string \<rightharpoonup> pyval"
  | NameIndexed "string \<Rightarrow> foreign_error + pyval"
  | ParallelNames pyval
  | Unrecognized

definition first_shape :: "pyobject \<Rightarrow> shape" where
  "first_shape obj =
     (case mapping obj of
        Some m \<Rightarrow> NativeMapping m
      | None \<Rightarrow>
          (case attr_rx2 obj of
             Some f \<Rightarrow> NameIndexed f
           | None \<Rightarrow>
               (case attr_names obj of
                  None \<Rightarrow> Unrecognized
                | Some v \<Rightarrow> if v = PyNone then Unrecognized else ParallelNames v)))"

text \<open>
  "Coerce to integer" is Python's \<^verbatim>\<open>int\<close>. For a string, by its documentation: the
  whitespace around the text is ignored; the text is an optional sign followed by
  decimal digits, which single underscores may separate; the digits are read in base
  ten.
\<close>

definition spec_whitespace :: "char list" where
  "spec_whitespace =
     [CHR 0x09, CHR 0x0A, CHR 0x0B, CHR 0x0C, CHR 0x0D, CHR 0x20, CHR 0x85, CHR 0xA0]"

definition spec_strip :: "string \<Rightarrow> string" where
  "spec_strip s =
     (let t = dropWhile (\<lambda>c. c \<in> set spec_whitespace) s
      in take (length t - length (takeWhile (\<lambda>c. c \<in> set spec_whitespace) (rev t))) t)"

text \<open>The value of a digit is its place in \<open>''0123456789''\<close>.\<close>

definition spec_digit_value :: "char \<Rightarrow> int" where
  "spec_digit_value c = int (length (takeWhile (\<lambda>d. d \<noteq> c) ''0123456789''))"

definition spec_well_formed :: "string \<Rightarrow> bool" where
  "spec_well_formed body =
     (body \<noteq> [] \<and> set body \<subseteq> set ''0123456789_'' \<and>
      hd body \<noteq> CHR ''_'' \<and> last body \<noteq> CHR ''_'' \<and>
      successively (\<lambda>a b. a \<noteq> CHR ''_'' \<or> b \<noteq> CHR ''_'') body)"

definition spec_decimal_value :: "string \<Rightarrow> int" where
  "spec_decimal_value body =
     foldl (\<lambda>a c. 10 * a + spec_digit_value c) 0 (filter (\<lambda>c. c \<noteq> CHR ''_'') body)"

definition spec_int_of_str :: "string \<Rightarrow> py_error + int" where
  "spec_int_of_str s =
     (let t = spec_strip s;
          signed = (t \<noteq> [] \<and> (hd t = CHR ''-'' \<or> hd t = CHR ''+''));
          body = (if signed then tl t else t)
      in if spec_well_formed body
         then Inr (if signed \<and> hd t = CHR ''-'' then - spec_decimal_value body
                   else spec_decimal_value body)
         else Inl ValueError)"

text \<open>A float is rounded towards zero; NaN and the infinities have no integer.\<close>

definition spec_int :: "pyval \<Rightarrow> py_error + int" where
  "spec_int v =
     (case v of
        PyInt n \<Rightarrow> Inr n
      | PyBool b \<Rightarrow> Inr (of_bool b)
      | PyFloat x \<Rightarrow>
          (case x of
             Finite q \<Rightarrow> Inr (if q < 0 then - \<lfloor>- q\<rfloor> else \<lfloor>q\<rfloor>)
           | NaN \<Rightarrow> Inl ValueError
           | PosInf \<Rightarrow> Inl OverflowError
           | NegInf \<Rightarrow> Inl OverflowError)
      | PyStr s \<Rightarrow> spec_int_of_str s
      | PyNone \<Rightarrow> Inl (TypeError (IntArgument ''NoneType''))
      | PySeq xs \<Rightarrow> Inl (TypeError (IntArgument ''list''))
      | PyOpaque t \<Rightarrow> Inl (TypeError (IntArgument t)))"

definition spec_coerce :: "py_error + pyval \<Rightarrow> py_error + int" where
  "spec_coerce r = (case r of Inl e \<Rightarrow> Inl e | Inr v \<Rightarrow> spec_int v)"

text \<open>The entry of a native mapping under a key.\<close>

definition spec_lookup :: "(string \<rightharpoonup> pyval) \<Rightarrow> string \<Rightarrow> py_error + pyval" where
  "spec_lookup m k = (if k \<in> dom m then Inr (the (m k)) else Inl (KeyError k))"

text \<open>"take the first element"\<close>

definition spec_first_element :: "pyval \<Rightarrow> py_error + pyval" where
  "spec_first_element v =
     (case v of
        PySeq xs \<Rightarrow> (case xs of [] \<Rightarrow> Inl IndexError | x # rest \<Rightarrow> Inr x)
      | PyStr s \<Rightarrow> (case s of [] \<Rightarrow> Inl IndexError | c # rest \<Rightarrow> Inr (PyStr [c]))
      | other \<Rightarrow> Inl (TypeError (NotSubscriptable (type_name other))))"

definition spec_first :: "foreign_error + pyval \<Rightarrow> py_error + pyval" where
  "spec_first r = (case r of Inl e \<Rightarrow> Inl (Foreign e) | Inr vec \<Rightarrow> spec_first_element vec)"

text \<open>The names as a sequence ("iterable of field names").\<close>

definition spec_names :: "pyval \<Rightarrow> py_error + pyval list" where
  "spec_names v =
     (case v of
        PySeq xs \<Rightarrow> Inr xs
      | PyStr s \<Rightarrow> Inr (map (\<lambda>c. PyStr [c]) s)
      | other \<Rightarrow> Inl (TypeError (NotIterable (type_name other))))"

text \<open>The positional value at a position ("parallel to positional values").\<close>

definition spec_value_at :: "pyobject \<Rightarrow> nat \<Rightarrow> py_error + pyval" where
  "spec_value_at obj i =
     (case positional obj of
        None \<Rightarrow> Inl (TypeError (NotSubscriptable (obj_type obj)))
      | Some values \<Rightarrow> (case drop i values of [] \<Rightarrow> Inl IndexError | v # rest \<Rightarrow> Inr v))"

definition spec_year_range :: "py_error + int \<Rightarrow> py_error + int \<Rightarrow> py_error + (string \<rightharpoonup> int)" where
  "spec_year_range lo hi =
     (case lo of
        Inl e \<Rightarrow> Inl e
      | Inr a \<Rightarrow> (case hi of Inl e \<Rightarrow> Inl e | Inr b \<Rightarrow> Inr [''min_year'' \<mapsto> a, ''max_year'' \<mapsto> b]))"

text \<open>"for each position whose name equals \<^verbatim>\<open>min_year\<close> or \<^verbatim>\<open>max_year\<close>, record the coerced
  integer value at that position"\<close>

definition spec_record :: "pyobject \<Rightarrow> py_error + (string \<rightharpoonup> int) \<Rightarrow> nat \<times> pyval \<Rightarrow> py_error + (string \<rightharpoonup> int)" where
  "spec_record obj acc p =
     (case acc of
        Inl e \<Rightarrow> Inl e
      | Inr d \<Rightarrow>
          (if snd p = PyStr ''min_year'' then
             (case spec_coerce (spec_value_at obj (fst p)) of
                Inl e \<Rightarrow> Inl e
              | Inr n \<Rightarrow> Inr (d(''min_year'' \<mapsto> n)))
           else if snd p = PyStr ''max_year'' then
             (case spec_coerce (spec_value_at obj (fst p)) of
                Inl e \<Rightarrow> Inl e
              | Inr n \<Rightarrow> Inr (d(''max_year'' \<mapsto> n)))
           else Inr d))"

definition spec_normalize :: "pyobject \<Rightarrow> py_error + (string \<rightharpoonup> int)" where
  "spec_normalize obj =
     (case first_shape obj of
        NativeMapping m \<Rightarrow>
          spec_year_range (spec_coerce (spec_lookup m ''min_year''))
            (spec_coerce (spec_lookup m ''max_year''))
      | NameIndexed f \<Rightarrow>
          spec_year_range (spec_coerce (spec_first (f ''min_year'')))
            (spec_coerce (spec_first (f ''max_year'')))
      | ParallelNames v \<Rightarrow>
          (case spec_names v of
             Inl e \<Rightarrow> Inl e
           | Inr names \<Rightarrow> foldl (spec_record obj) (Inr Map.empty) (enumerate 0 names))
      | Unrecognized \<Rightarrow> Inl (TypeError (UnexpectedReturnType (obj_type obj))))"

text \<open>
  What a value supplies under one of the two names, coerced: the entry of the mapping;
  or the first element of the extraction by name; or the positional value at the last
  position that bears the name.
\<close>

definition supplied :: "pyobject \<Rightarrow> string \<Rightarrow> int \<Rightarrow> bool" where
  "supplied r k n =
     (case mapping r of
        Some m \<Rightarrow> (\<exists>v. m k = Some v \<and> spec_int v = Inr n)
      | None \<Rightarrow>
          (case attr_rx2 r of
             Some f \<Rightarrow>
               (\<exists>vec v. f k = Inr vec \<and> spec_first_element vec = Inr v \<and> spec_int v = Inr n)
           | None \<Rightarrow>
               (\<exists>named names values i.
                  attr_names r = Some named \<and> spec_names named = Inr names \<and>
                  positional r = Some values \<and>
                  i < length names \<and> names ! i = PyStr k \<and>
                  (\<forall>j. i < j \<and> j < length names \<longrightarrow> names ! j \<noteq> PyStr k) \<and>
                  i < length values \<and> spec_int (values ! i) = Inr n)))"

subsection \<open>Sample values\<close>

text \<open>A plain dict \<^verbatim>\<open>{"min_year": 2015, "max_year": 2025}\<close>.\<close>

definition years_dict :: pyobject where
  "years_dict =
     \<lparr>obj_type = ''dict'',
      mapping = Some [''min_year'' \<mapsto> PyInt 2015, ''max_year'' \<mapsto> PyInt 2025],
      attr_rx2 = None, attr_names = None, positional = None\<rparr>"

text \<open>
  An object that is no dict and has no \<^verbatim>\<open>rx2\<close>, with the names
  \<^verbatim>\<open>["min_year", "max_year"]\<close> and the values \<^verbatim>\<open>[2015, 2025]\<close>.
\<close>

definition years_names_only :: pyobject where
  "years_names_only =
     \<lparr>obj_type = ''NamedList'',
      mapping = None, attr_rx2 = None,
      attr_names = Some (PySeq [PyStr ''min_year'', PyStr ''max_year'']),
      positional = Some [PyInt 2015, PyInt 2025]\<rparr>"

text \<open>A dict with the two years the wrong way round.\<close>

definition years_reversed :: pyobject where
  "years_reversed =
     \<lparr>obj_type = ''dict'',
      mapping = Some [''min_year'' \<mapsto> PyInt 2025, ''max_year'' \<mapsto> PyInt 2015],
      attr_rx2 = None, attr_names = None, positional = None\<rparr>"

text \<open>An object with names and values, none of the names a year.\<close>

definition other_names_only :: pyobject where
  "other_names_only =
     \<lparr>obj_type = ''NamedList'',
      mapping = None, attr_rx2 = None,
      attr_names = Some (PySeq [PyStr ''first'', PyStr ''last'']),
      positional = Some [PyInt 2015, PyInt 2025]\<rparr>"

text \<open>A dict that has \<^verbatim>\<open>rx2\<close> and names as well, each with other years.\<close>

definition years_every_shape :: pyobject where
  "years_every_shape =
     \<lparr>obj_type = ''OrdDict'',
      mapping = Some [''min_year'' \<mapsto> PyInt 2015, ''max_year'' \<mapsto> PyInt 2025],
      attr_rx2 = Some (\<lambda>k. Inr (PySeq [PyInt 1990])),
      attr_names = Some (PySeq [PyStr ''min_year'', PyStr ''max_year'']),
      positional = Some [PyInt 2000, PyInt 2001]\<rparr>"

text \<open>
  An R list as rpy2 shows one: \<^verbatim>\<open>rx2\<close> gives the vector under a name (here of floats
  and of more than one element), and there are names and positional values as well.
\<close>

definition years_list_vector :: pyobject where
  "years_list_vector =
     \<lparr>obj_type = ''ListVector'',
      mapping = None,
      attr_rx2 = Some (\<lambda>k.
        if k = ''min_year'' then Inr (PySeq [PyFloat (Finite 2015), PyFloat (Finite 1990)])
        else if k = ''max_year'' then Inr (PySeq [PyFloat (Finite (4051 / 2))])
        else Inr (PySeq [])),
      attr_names = Some (PySeq [PyStr ''min_year'', PyStr ''max_year'']),
      positional = Some [PySeq [PyInt 2000], PySeq [PyInt 2001]]\<rparr>"

text \<open>
  Names and values only, with \<^verbatim>\<open>max_year\<close> twice, another name between, and the years
  as a string, a float and an integer.
\<close>

definition years_named_twice :: pyobject where
  "years_named_twice =
     \<lparr>obj_type = ''NamedList'',
      mapping = None, attr_rx2 = None,
      attr_names =
        Some (PySeq [PyStr ''max_year'', PyStr ''note'', PyStr ''min_year'', PyStr ''max_year'']),
      positional =
        Some [PyInt 1999, PyStr ''n/a'', PyStr '' 2_015 '', PyFloat (Finite 2025)]\<rparr>"

text \<open>A plain integer: no dict, no \<^verbatim>\<open>rx2\<close>, no names, no subscripts.\<close>

definition plain_int :: "int \<Rightarrow> pyobject" where
  "plain_int n =
     \<lparr>obj_type = type_name (PyInt n),
      mapping = None, attr_rx2 = None, attr_names = None, positional = None\<rparr>"

definition sample_table :: table where
  "sample_table = [(''end_year'', [PyInt 2025]), (''n_students'', [PyInt 812])]"

text \<open>A package whose table functions answer \<open>tb\<close> and whose year range is \<open>r\<close>.\<close>

definition sample_pkg :: "tabular \<Rightarrow> pyobject \<Rightarrow> rpackage" where
  "sample_pkg tb r =
     \<lparr>pkg_id = 1,
      r_fetch_enr = (\<lambda>end_year. Inr tb),
      r_fetch_enr_multi = (\<lambda>end_years. Inr tb),
      r_tidy_enr = (\<lambda>df. Inr tb),
      r_get_available_years = Inr r\<rparr>"

text \<open>A package all of whose functions fail with \<open>e\<close>.\<close>

definition failing_pkg :: "foreign_error \<Rightarrow> rpackage" where
  "failing_pkg e =
     \<lparr>pkg_id = 1,
      r_fetch_enr = (\<lambda>end_year. Inl e),
      r_fetch_enr_multi = (\<lambda>end_years. Inl e),
      r_tidy_enr = (\<lambda>df. Inl e),
      r_get_available_years = Inl e\<rparr>"

fun sample_ints :: "pyval list \<Rightarrow> int list option" where
  "sample_ints [] = Some []"
| "sample_ints (PyInt n # xs) = map_option ((#) n) (sample_ints xs)"
| "sample_ints (v # xs) = None"

fun sample_int_vector :: "pyval \<Rightarrow> foreign_error + int list" where
  "sample_int_vector (PySeq xs) =
     (case sample_ints xs of
        None \<Rightarrow> Inl (ForeignExc ''ValueError'' ''not an integer'')
      | Some ns \<Rightarrow> Inr ns)"
| "sample_int_vector v = Inl (ForeignExc ''TypeError'' ''not a sequence'')"

fun sample_py2rpy :: "tabular \<Rightarrow> foreign_error + tabular" where
  "sample_py2rpy (PandasDataFrame t) = Inr (RDataFrame t)"
| "sample_py2rpy v = Inr v"

fun sample_rpy2py :: "tabular \<Rightarrow> foreign_error + tabular" where
  "sample_rpy2py (RDataFrame t) = Inr (PandasDataFrame t)"
| "sample_rpy2py v = Inr v"

definition r_error :: foreign_error where
  "r_error = ForeignExc ''RRuntimeError'' ''Error in fetch: no data for that year''"

text \<open>A bridge on which \<^verbatim>\<open>importr\<close> always finds \<open>pkg\<close>.\<close>

definition sample_bridge :: "rpackage \<Rightarrow> bridge" where
  "sample_bridge pkg =
     \<lparr>importr = (\<lambda>n name. Inr pkg),
      int_vector = sample_int_vector,
      py2rpy = sample_py2rpy,
      rpy2py = sample_rpy2py\<rparr>"

text \<open>A bridge on which the first \<^verbatim>\<open>importr\<close> fails and the later ones find \<open>pkg\<close>.\<close>

definition late_bridge :: "rpackage \<Rightarrow> bridge" where
  "late_bridge pkg =
     \<lparr>importr = (\<lambda>n name. if n = 0 then Inl (ForeignExc ''PackageNotInstalledError'' name)
                           else Inr pkg),
      int_vector = sample_int_vector,
      py2rpy = sample_py2rpy,
      rpy2py = sample_rpy2py\<rparr>"

section \<open>Properties\<close>

subsection \<open>The builtins, as the specification reads them\<close>

lemma of_char_eq_code: "of_char d = (n::nat) \<Longrightarrow> (of_char c = n) = (c = d)"
  by auto

lemma is_space_spec: "is_space c \<longleftrightarrow> c \<in> set spec_whitespace"
proof -
  have "is_space c \<longleftrightarrow> (of_char c :: nat) \<in> of_char ` set spec_whitespace"
    by (simp add: is_space_def spec_whitespace_def)
  also have "\<dots> \<longleftrightarrow> c \<in> set spec_whitespace"
    by (rule inj_image_mem_iff [OF inj_of_char])
  finally show ?thesis .
qed

lemma digit_codes: "(48 \<le> n \<and> n \<le> 57) = (n \<in> {48, 49, 50, 51, 52, 53, 54, 55, 56, 57 :: nat})"
  by (simp only: insert_iff empty_iff) presburger

lemma is_digit_spec: "is_digit c \<longleftrightarrow> c \<in> set ''0123456789''"
proof -
  have "is_digit c \<longleftrightarrow> (of_char c :: nat) \<in> of_char ` set ''0123456789''"
    by (simp add: is_digit_def digit_codes)
  also have "\<dots> \<longleftrightarrow> c \<in> set ''0123456789''"
    by (rule inj_image_mem_iff [OF inj_of_char])
  finally show ?thesis .
qed


lemma digit_val_spec: "is_digit c \<Longrightarrow> digit_val c = spec_digit_value c"
proof -
  have "\<forall>d \<in> set ''0123456789''. digit_val d = spec_digit_value d"
    by (simp add: digit_val_def spec_digit_value_def)
  then show "is_digit c \<Longrightarrow> digit_val c = spec_digit_value c"
    by (simp only: is_digit_spec)
qed


lemma strip_spec: "strip s = spec_strip s"
proof -
  have ws: "is_space = (\<lambda>c. c \<in> set spec_whitespace)"
    by (rule ext) (rule is_space_spec)
  have "rev (dropWhile P (rev t)) = take (length t - length (takeWhile P (rev t))) t"
    for P and t :: string
    by (simp add: dropWhile_eq_drop rev_drop)
  then show ?thesis
    by (simp only: strip_def spec_strip_def ws Let_def)
qed

lemma underscore_no_digit: "\<not> is_digit CHR ''_''"
  by (simp add: is_digit_def)

lemma digit_or_underscore:
  "c \<in> set ''0123456789_'' \<longleftrightarrow> is_digit c \<or> c = CHR ''_''"
  by (auto simp: is_digit_spec)

lemma dec_digits_spec:
  "dec_digits cs acc after_digit =
     (if (\<forall>c \<in> set cs. is_digit c \<or> c = CHR ''_'') \<and> (cs = [] \<longrightarrow> after_digit) \<and>
         (cs \<noteq> [] \<longrightarrow> (hd cs = CHR ''_'' \<longrightarrow> after_digit) \<and> last cs \<noteq> CHR ''_'') \<and>
         successively (\<lambda>a b. a \<noteq> CHR ''_'' \<or> b \<noteq> CHR ''_'') cs
      then Some (foldl (\<lambda>a c. 10 * a + spec_digit_value c) acc (filter (\<lambda>c. c \<noteq> CHR ''_'') cs))
      else None)"
proof -
  define run where "run = (\<lambda>after_digit cs.
    (\<forall>c \<in> set cs. is_digit c \<or> c = CHR ''_'') \<and> (cs = [] \<longrightarrow> after_digit) \<and>
    (cs \<noteq> [] \<longrightarrow> (hd cs = CHR ''_'' \<longrightarrow> after_digit) \<and> last cs \<noteq> CHR ''_'') \<and>
    successively (\<lambda>a b. a \<noteq> CHR ''_'' \<or> b \<noteq> CHR ''_'') cs)"
  define val where "val = (\<lambda>acc cs.
    foldl (\<lambda>a c. 10 * a + spec_digit_value c) acc (filter (\<lambda>c. c \<noteq> CHR ''_'') cs))"
  have digit: "run after_digit (c # cs) = run True cs" if "is_digit c" for after_digit c cs
  proof -
    from that have "c \<noteq> CHR ''_''"
      using underscore_no_digit by auto
    with that show ?thesis
      by (auto simp: run_def successively_Cons)
  qed
  have underscore: "run True (CHR ''_'' # cs) = run False cs" for cs
    by (auto simp: run_def successively_Cons)
  have other: "\<not> run after_digit (c # cs)"
    if "\<not> is_digit c" "\<not> (c = CHR ''_'' \<and> after_digit)" for after_digit c cs
    using that by (auto simp: run_def)
  have "dec_digits cs acc after_digit = (if run after_digit cs then Some (val acc cs) else None)"
  proof (induction cs arbitrary: acc after_digit)
    case Nil
    show ?case by (simp add: run_def val_def)
  next
    case (Cons c cs)
    show ?case
    proof (cases "is_digit c")
      case True
      then have "c \<noteq> CHR ''_''"
        using underscore_no_digit by auto
      then have "val acc (c # cs) = val (10 * acc + digit_val c) cs"
        using True by (simp add: val_def digit_val_spec)
      with True show ?thesis
        by (simp add: Cons.IH digit)
    next
      case False
      show ?thesis
      proof (cases "c = CHR ''_'' \<and> after_digit")
        case True
        then have "val acc (c # cs) = val acc cs"
          by (simp add: val_def)
        with True False show ?thesis
          by (simp add: Cons.IH underscore)
      next
        case no: False
        from other [OF False no] False no show ?thesis by auto
      qed
    qed
  qed
  then show ?thesis
    by (simp only: run_def val_def)
qed


lemma dec_digits_well_formed:
  "dec_digits body 0 False =
     (if spec_well_formed body then Some (spec_decimal_value body) else None)"
proof -
  have "spec_well_formed body \<longleftrightarrow>
      (\<forall>c \<in> set body. is_digit c \<or> c = CHR ''_'') \<and> (body = [] \<longrightarrow> False) \<and>
      (body \<noteq> [] \<longrightarrow> (hd body = CHR ''_'' \<longrightarrow> False) \<and> last body \<noteq> CHR ''_'') \<and>
      successively (\<lambda>a b. a \<noteq> CHR ''_'' \<or> b \<noteq> CHR ''_'') body"
    unfolding spec_well_formed_def subset_eq digit_or_underscore by blast
  then show ?thesis
    by (simp only: dec_digits_spec [of body 0 False] spec_decimal_value_def)
qed

lemma int_of_str_spec: "int_of_str s = spec_int_of_str s"
proof (cases "spec_strip s")
  case Nil
  then show ?thesis
    by (simp add: int_of_str_def spec_int_of_str_def strip_spec spec_well_formed_def)
next
  case (Cons c cs)
  then show ?thesis
    by (simp add: int_of_str_def spec_int_of_str_def strip_spec dec_digits_well_formed)
qed

lemma int_of_float_spec: "int_of_float x = spec_int (PyFloat x)"
  by (cases x) (simp_all add: spec_int_def ceiling_def not_le)

lemma py_int_spec: "py_int v = spec_int v"
proof (cases v)
  case (PyFloat x)
  then show ?thesis by (simp add: int_of_float_spec)
next
  case (PyStr s)
  then show ?thesis by (simp add: int_of_str_spec spec_int_def)
qed (simp_all add: spec_int_def)

lemma py_getitem_first: "py_getitem v 0 = spec_first_element v"
proof (cases v)
  case (PySeq xs)
  then show ?thesis by (cases xs) (simp_all add: spec_first_element_def)
next
  case (PyStr s)
  then show ?thesis by (cases s) (simp_all add: spec_first_element_def)
qed (simp_all add: spec_first_element_def)

lemma names_list_spec: "names_list v = spec_names v"
  by (cases v) (simp_all add: spec_names_def)

lemma dict_get_spec: "dict_get m k = spec_lookup m k"
  by (auto simp: dict_get_def spec_lookup_def split: option.splits)

lemma item_spec: "item obj i = spec_value_at obj i"
proof (cases "positional obj")
  case None
  then show ?thesis by (simp add: item_def spec_value_at_def)
next
  case (Some vals)
  show ?thesis
  proof (cases "i < length vals")
    case True
    then have "drop i vals = vals ! i # drop (Suc i) vals"
      by (simp add: Cons_nth_drop_Suc)
    with Some True show ?thesis by (simp add: item_def spec_value_at_def)
  next
    case False
    with Some show ?thesis by (simp add: item_def spec_value_at_def)
  qed
qed

subsection \<open>Auxiliary facts\<close>

lemma year_key_Some: "year_key n = Some k \<longleftrightarrow> n = PyStr k \<and> (k = ''min_year'' \<or> k = ''max_year'')"
  by (cases n) auto

lemma year_key_None: "year_key n = None \<longleftrightarrow> n \<noteq> PyStr ''min_year'' \<and> n \<noteq> PyStr ''max_year''"
  by (cases n) auto

lemma foldl_spec_record_Inl: "foldl (spec_record obj) (Inl e) ps = Inl e"
  by (induction ps) (simp_all add: spec_record_def)

lemma spec_coerce_item: "spec_coerce (spec_value_at obj i) =
    (case item obj i of Inl e \<Rightarrow> Inl e | Inr v \<Rightarrow> py_int v)"
  by (simp add: spec_coerce_def item_spec py_int_spec split: sum.splits)

lemma scan_names_foldl:
  "scan_names obj i names d = foldl (spec_record obj) (Inr d) (enumerate i names)"
proof (induction names arbitrary: i d)
  case Nil
  show ?case by simp
next
  case (Cons name rest)
  show ?case
  proof (cases "year_key name")
    case None
    then have "spec_record obj (Inr d) (i, name) = Inr d"
      by (simp add: spec_record_def year_key_None)
    with None Cons show ?thesis by simp
  next
    case (Some k)
    then have k: "name = PyStr k" "k = ''min_year'' \<or> k = ''max_year''"
      by (simp_all add: year_key_Some)
    show ?thesis
    proof (cases "item obj i")
      case (Inl e)
      with k have "spec_record obj (Inr d) (i, name) = Inl e"
        by (auto simp: spec_record_def spec_coerce_item)
      with Some Inl show ?thesis by (simp add: foldl_spec_record_Inl)
    next
      case (Inr v)
      show ?thesis
      proof (cases "py_int v")
        case (Inl e)
        with k Inr have "spec_record obj (Inr d) (i, name) = Inl e"
          by (auto simp: spec_record_def spec_coerce_item)
        with Some Inr Inl show ?thesis by (simp add: foldl_spec_record_Inl)
      next
        case int: (Inr n)
        with k Inr have step: "spec_record obj (Inr d) (i, name) = Inr (d(k \<mapsto> n))"
          by (auto simp: spec_record_def spec_coerce_item)
        have "scan_names obj i (name # rest) d = scan_names obj (Suc i) rest (d(k \<mapsto> n))"
          using Some Inr int by simp
        also have "\<dots> = foldl (spec_record obj) (Inr (d(k \<mapsto> n))) (enumerate (Suc i) rest)"
          by (rule Cons.IH)
        also have "\<dots> = foldl (spec_record obj) (Inr d) (enumerate i (name # rest))"
          by (simp only: enumerate_simps foldl_Cons step)
        finally show ?thesis .
      qed
    qed
  qed
qed

lemma dict_int_spec: "dict_int m k = spec_coerce (spec_lookup m k)"
  by (simp add: dict_int_def spec_coerce_def dict_get_spec py_int_spec split: sum.splits)

lemma rx2_first_int_spec: "rx2_first_int f k = spec_coerce (spec_first (f k))"
  by (simp add: rx2_first_int_def spec_coerce_def spec_first_def py_getitem_first py_int_spec
      split: sum.splits)

lemma normalize_years_spec: "normalize_years obj = spec_normalize obj"
proof (cases "mapping obj")
  case (Some m)
  then show ?thesis
    by (simp add: normalize_years_def spec_normalize_def first_shape_def spec_year_range_def
        dict_int_spec split: sum.splits)
next
  case None
  show ?thesis
  proof (cases "attr_rx2 obj")
    case (Some f)
    with None show ?thesis
      by (simp add: normalize_years_def spec_normalize_def first_shape_def spec_year_range_def
          rx2_first_int_spec split: sum.splits)
  next
    case no_rx2: None
    show ?thesis
    proof (cases "attr_names obj")
      case no_names: None
      with None no_rx2 show ?thesis
        by (simp add: normalize_years_def spec_normalize_def first_shape_def getattr_names_def)
    next
      case (Some v)
      with None no_rx2 show ?thesis
        by (simp add: normalize_years_def spec_normalize_def first_shape_def getattr_names_def
            names_list_spec scan_names_foldl split: sum.splits)
    qed
  qed
qed

lemma snd_returning [simp]: "snd (returning wrap r) = snd r"
  by (cases r) (auto simp: returning_def split: sum.splits)

lemma log_call_fields [simp]:
  "pkg_global (log_event ev w) = pkg_global w"
  "loads (log_event (Call name) w) = loads w"
  "import_attempts (log_event (Call name) w) = import_attempts w"
  "trace (log_event ev w) = trace w @ [ev]"
  by (simp_all add: log_event_def loads_def import_attempts_def)

lemma get_pkg_cached: "pkg_global w = Some p \<Longrightarrow> get_pkg br w = (Inr p, w)"
  by (simp add: get_pkg_def)

lemma get_pkg_Inr: "get_pkg br w = (Inr p, w1) \<Longrightarrow> pkg_global w1 = Some p"
  by (auto simp: get_pkg_def split: option.splits sum.splits)

lemma get_pkg_Inl: "get_pkg br w = (Inl e, w1) \<Longrightarrow> pkg_global w = None \<and> pkg_global w1 = None"
  by (auto simp: get_pkg_def split: option.splits sum.splits)

lemma get_pkg_consistent: "cache_consistent w \<Longrightarrow> cache_consistent (snd (get_pkg br w))"
  by (auto simp: get_pkg_def cache_consistent_def loads_def log_event_def split: option.splits sum.splits)

lemma get_pkg_attempts:
  "import_attempts (snd (get_pkg br w)) =
     (case pkg_global w of None \<Rightarrow> Suc (import_attempts w) | Some p \<Rightarrow> import_attempts w)"
  by (auto simp: get_pkg_def import_attempts_def log_event_def split: option.splits sum.splits)

text \<open>Every operation changes the state as \<open>get_pkg\<close> does, and may log one call.\<close>

lemma run_call_state:
  "snd (run_call br c w) = snd (get_pkg br w) \<or>
   (\<exists>name. snd (run_call br c w) = log_event (Call name) (snd (get_pkg br w)))"
proof (cases "get_pkg br w")
  case (Pair r w1)
  show ?thesis
  proof (cases r)
    case (Inl e)
    with Pair show ?thesis
      by (cases c)
        (simp_all add: fetch_enr_def fetch_enr_multi_def tidy_enr_def get_available_years_def)
  next
    case (Inr p)
    with Pair show ?thesis
      by (cases c)
        (auto simp: fetch_enr_def fetch_enr_multi_def tidy_enr_def get_available_years_def
          split: sum.splits)
  qed
qed

lemma run_call_cache: "pkg_global (snd (run_call br c w)) = pkg_global (snd (get_pkg br w))"
  using run_call_state [of br c w] by auto

lemma run_call_loads: "loads (snd (run_call br c w)) = loads (snd (get_pkg br w))"
  using run_call_state [of br c w] by auto

lemma run_call_attempts:
  "import_attempts (snd (run_call br c w)) = import_attempts (snd (get_pkg br w))"
  using run_call_state [of br c w] by auto

lemma run_call_consistent: "cache_consistent w \<Longrightarrow> cache_consistent (snd (run_call br c w))"
  using get_pkg_consistent [of w br]
  by (simp add: cache_consistent_def run_call_cache run_call_loads)

lemma run_calls_consistent: "cache_consistent w \<Longrightarrow> cache_consistent (run_calls br cs w)"
  by (induction cs arbitrary: w) (simp_all add: run_call_consistent)

lemma initial_consistent: "cache_consistent initial_world"
  by (simp add: cache_consistent_def initial_world_def loads_def)

lemma run_call_keeps_handle:
  "pkg_global w = Some p \<Longrightarrow>
     pkg_global (snd (run_call br c w)) = Some p \<and> loads (snd (run_call br c w)) = loads w \<and>
     import_attempts (snd (run_call br c w)) = import_attempts w"
  by (simp add: run_call_cache run_call_loads run_call_attempts get_pkg_cached)

lemma run_calls_keeps_handle:
  "pkg_global w = Some p \<Longrightarrow>
     pkg_global (run_calls br cs w) = Some p \<and> loads (run_calls br cs w) = loads w \<and>
     import_attempts (run_calls br cs w) = import_attempts w"
proof (induction cs arbitrary: w)
  case Nil
  then show ?case by simp
next
  case (Cons c cs)
  from Cons.prems have step:
    "pkg_global (snd (run_call br c w)) = Some p" "loads (snd (run_call br c w)) = loads w"
    "import_attempts (snd (run_call br c w)) = import_attempts w"
    by (simp_all add: run_call_keeps_handle)
  from Cons.IH [OF step(1)] step(2,3) show ?case by simp
qed

lemma get_available_years_normalize:
  "get_pkg br w = (Inr pkg, w1) \<Longrightarrow> r_get_available_years pkg = Inr r \<Longrightarrow>
     get_available_years br w = (normalize_years r, log_event (Call ''get_available_years'') w1)"
  by (simp add: get_available_years_def)

lemma sample_get_pkg:
  "get_pkg (sample_bridge pkg) initial_world =
     (Inr pkg, \<lparr>pkg_global = Some pkg, trace = [Import ''meschooldata'' True]\<rparr>)"
  by (simp add: get_pkg_def sample_bridge_def initial_world_def import_attempts_def log_event_def)

lemma int_of_float_not_unexpected: "int_of_float x \<noteq> Inl (TypeError te)"
  by (cases x) simp_all

lemma int_of_str_not_unexpected: "int_of_str s \<noteq> Inl (TypeError te)"
  by (simp add: int_of_str_def split: list.splits option.splits)

lemma py_int_not_unexpected: "py_int v \<noteq> Inl (TypeError (UnexpectedReturnType t))"
  by (cases v) (simp_all add: int_of_float_not_unexpected int_of_str_not_unexpected)

lemma py_getitem_not_unexpected: "py_getitem v i \<noteq> Inl (TypeError (UnexpectedReturnType t))"
  by (cases v) simp_all

lemma names_list_not_unexpected: "names_list v \<noteq> Inl (TypeError (UnexpectedReturnType t))"
  by (cases v) simp_all

lemma item_not_unexpected: "item obj i \<noteq> Inl (TypeError (UnexpectedReturnType t))"
  by (simp add: item_def split: option.splits)

lemma dict_int_not_unexpected: "dict_int m k \<noteq> Inl (TypeError (UnexpectedReturnType t))"
  by (simp add: dict_int_def dict_get_def py_int_not_unexpected split: option.splits)

lemma rx2_first_int_not_unexpected:
  "rx2_first_int f k \<noteq> Inl (TypeError (UnexpectedReturnType t))"
  using py_getitem_not_unexpected [of _ 0 t] py_int_not_unexpected [of _ t]
  by (auto simp: rx2_first_int_def split: sum.splits)

lemma scan_names_not_unexpected:
  "scan_names obj i names d \<noteq> Inl (TypeError (UnexpectedReturnType t))"
proof (induction names arbitrary: i d)
  case Nil
  show ?case by simp
next
  case (Cons name rest)
  show ?case
    using Cons.IH item_not_unexpected [of obj i t] py_int_not_unexpected [of _ t]
    by (auto split: option.splits sum.splits)
qed

lemma normalize_years_unexpected:
  "normalize_years r = Inl (TypeError (UnexpectedReturnType t)) \<longleftrightarrow>
     mapping r = None \<and> attr_rx2 r = None \<and> getattr_names r = PyNone \<and> t = obj_type r"
proof (cases "mapping r")
  case (Some m)
  then show ?thesis
    using dict_int_not_unexpected [of m _ t]
    by (auto simp: normalize_years_def split: sum.splits)
next
  case None
  show ?thesis
  proof (cases "attr_rx2 r")
    case (Some f)
    with None show ?thesis
      using rx2_first_int_not_unexpected [of f _ t]
      by (auto simp: normalize_years_def split: sum.splits)
  next
    case no_rx2: None
    with None show ?thesis
      using names_list_not_unexpected [of _ t] scan_names_not_unexpected [of r 0 _ _ t]
      by (auto simp: normalize_years_def Let_def split: sum.splits)
  qed
qed

lemma scan_names_no_years:
  "\<forall>n \<in> set names. year_key n = None \<Longrightarrow> scan_names obj i names d = Inr d"
  by (induction names arbitrary: i) simp_all

lemma scan_names_dom:
  "scan_names obj i names d0 = Inr d \<Longrightarrow>
     dom d = dom d0 \<union> {k. \<exists>n \<in> set names. year_key n = Some k}"
proof (induction names arbitrary: i d0)
  case Nil
  then show ?case by simp
next
  case (Cons name rest)
  show ?case
  proof (cases "year_key name")
    case None
    with Cons.prems have "scan_names obj (Suc i) rest d0 = Inr d" by simp
    from Cons.IH [OF this] None show ?thesis by auto
  next
    case (Some k)
    with Cons.prems obtain v n where
      "item obj i = Inr v" "py_int v = Inr n"
      "scan_names obj (Suc i) rest (d0(k \<mapsto> n)) = Inr d"
      by (auto split: sum.splits)
    from Cons.IH [OF this(3)]
    have "dom d = dom (d0(k \<mapsto> n)) \<union> {k. \<exists>n \<in> set rest. year_key n = Some k}" .
    also have "dom (d0(k \<mapsto> n)) = insert k (dom d0)"
      by (simp only: dom_fun_upd option.distinct if_False)
    finally have step:
      "dom d = insert k (dom d0) \<union> {k. \<exists>n \<in> set rest. year_key n = Some k}" .
    have "{k'. \<exists>n \<in> set (name # rest). year_key n = Some k'} =
        insert k {k. \<exists>n \<in> set rest. year_key n = Some k}"
      using Some by auto
    with step show ?thesis by blast
  qed
qed

lemma year_keys_both:
  assumes "PyStr ''min_year'' \<in> set names" and "PyStr ''max_year'' \<in> set names"
  shows "{k. \<exists>n \<in> set names. year_key n = Some k} = {''min_year'', ''max_year''}"
proof
  show "{k. \<exists>n \<in> set names. year_key n = Some k} \<subseteq> {''min_year'', ''max_year''}"
    by (auto simp: year_key_Some)
next
  have "year_key (PyStr ''min_year'') = Some ''min_year''"
    "year_key (PyStr ''max_year'') = Some ''max_year''"
    by simp_all
  with assms show "{''min_year'', ''max_year''} \<subseteq> {k. \<exists>n \<in> set names. year_key n = Some k}"
    by blast
qed

lemma dom_year_range:
  "dom [''min_year'' \<mapsto> lo, ''max_year'' \<mapsto> hi] = {''min_year'', ''max_year''}"
  by (simp add: insert_commute)

lemma normalize_years_dom:
  assumes ok: "normalize_years r = Inr d"
    and shape: "mapping r \<noteq> None \<or> attr_rx2 r \<noteq> None \<or>
      (\<exists>names. names_list (getattr_names r) = Inr names \<and>
         PyStr ''min_year'' \<in> set names \<and> PyStr ''max_year'' \<in> set names)"
  shows "dom d = {''min_year'', ''max_year''}"
proof (cases "mapping r")
  case (Some m)
  with ok obtain lo hi where "d = [''min_year'' \<mapsto> lo, ''max_year'' \<mapsto> hi]"
    by (auto simp: normalize_years_def split: sum.splits)
  then show ?thesis by (simp only: dom_year_range)
next
  case None
  show ?thesis
  proof (cases "attr_rx2 r")
    case (Some f)
    with None ok obtain lo hi where "d = [''min_year'' \<mapsto> lo, ''max_year'' \<mapsto> hi]"
      by (auto simp: normalize_years_def split: sum.splits)
    then show ?thesis by (simp only: dom_year_range)
  next
    case no_rx2: None
    with None shape obtain names where names:
      "names_list (getattr_names r) = Inr names"
      "PyStr ''min_year'' \<in> set names" "PyStr ''max_year'' \<in> set names"
      by auto
    with None no_rx2 ok have "scan_names r 0 names Map.empty = Inr d"
      by (simp add: normalize_years_def Let_def split: if_splits)
    from scan_names_dom [OF this] year_keys_both [OF names(2,3)] show ?thesis
      by simp
  qed
qed

lemma scan_names_keeps:
  "PyStr k \<notin> set names \<Longrightarrow> scan_names obj i names d0 = Inr d \<Longrightarrow> d k = d0 k"
proof (induction names arbitrary: i d0)
  case Nil
  then show ?case by simp
next
  case (Cons name rest)
  from Cons.prems(1) have rest: "PyStr k \<notin> set rest" and name: "name \<noteq> PyStr k"
    by auto
  show ?case
  proof (cases "year_key name")
    case None
    with Cons.prems(2) have "scan_names obj (Suc i) rest d0 = Inr d" by simp
    from Cons.IH [OF rest this] show ?thesis .
  next
    case (Some k')
    with name have "k' \<noteq> k"
      by (auto simp: year_key_Some)
    from Some Cons.prems(2) obtain n where
      "scan_names obj (Suc i) rest (d0(k' \<mapsto> n)) = Inr d"
      by (auto split: sum.splits)
    from Cons.IH [OF rest this] \<open>k' \<noteq> k\<close> show ?thesis by simp
  qed
qed

lemma scan_names_last:
  assumes "scan_names obj off names d0 = Inr d" and "PyStr k \<in> set names"
    and "k = ''min_year'' \<or> k = ''max_year''"
  shows "\<exists>i v n. i < length names \<and> names ! i = PyStr k \<and>
           (\<forall>j. i < j \<and> j < length names \<longrightarrow> names ! j \<noteq> PyStr k) \<and>
           item obj (off + i) = Inr v \<and> py_int v = Inr n \<and> d k = Some n"
  using assms(1,2)
proof (induction names arbitrary: off d0)
  case Nil
  then show ?case by simp
next
  case (Cons name rest)
  show ?case
  proof (cases "PyStr k \<in> set rest")
    case True
    from Cons.prems(1) obtain d1 where "scan_names obj (Suc off) rest d1 = Inr d"
      by (auto split: option.splits sum.splits)
    from Cons.IH [OF this True] obtain i v n where i:
      "i < length rest" "rest ! i = PyStr k"
      "\<forall>j. i < j \<and> j < length rest \<longrightarrow> rest ! j \<noteq> PyStr k"
      "item obj (Suc off + i) = Inr v" "py_int v = Inr n" "d k = Some n"
      by blast
    have later: "(name # rest) ! j \<noteq> PyStr k" if "Suc i < j" "j < length (name # rest)" for j
    proof -
      from that obtain j' where j': "j = Suc j'" "i < j'" "j' < length rest"
        by (cases j) auto
      with i(3) show ?thesis by simp
    qed
    from i later have
      "Suc i < length (name # rest) \<and> (name # rest) ! Suc i = PyStr k \<and>
       (\<forall>j. Suc i < j \<and> j < length (name # rest) \<longrightarrow> (name # rest) ! j \<noteq> PyStr k) \<and>
       item obj (off + Suc i) = Inr v \<and> py_int v = Inr n \<and> d k = Some n"
      by simp
    then show ?thesis by blast
  next
    case False
    with Cons.prems(2) have name: "name = PyStr k" by simp
    with assms(3) have key: "year_key name = Some k" by auto
    with Cons.prems(1) obtain v n where v:
      "item obj off = Inr v" "py_int v = Inr n"
      "scan_names obj (Suc off) rest (d0(k \<mapsto> n)) = Inr d"
      by (auto split: sum.splits)
    from scan_names_keeps [OF False v(3)] have "d k = Some n" by simp
    moreover have "(name # rest) ! j \<noteq> PyStr k" if "0 < j" "j < length (name # rest)" for j
    proof -
      from that obtain j' where "j = Suc j'" "j' < length rest"
        by (cases j) auto
      with False show ?thesis by (metis nth_Cons_Suc nth_mem)
    qed
    ultimately have
      "0 < length (name # rest) \<and> (name # rest) ! 0 = PyStr k \<and>
       (\<forall>j. 0 < j \<and> j < length (name # rest) \<longrightarrow> (name # rest) ! j \<noteq> PyStr k) \<and>
       item obj (off + 0) = Inr v \<and> py_int v = Inr n \<and> d k = Some n"
      using name v(1,2) by simp
    then show ?thesis by blast
  qed
qed

lemma dict_int_supplied:
  "dict_int m k = Inr n \<Longrightarrow> \<exists>v. m k = Some v \<and> spec_int v = Inr n"
  by (auto simp: dict_int_def dict_get_def py_int_spec split: option.splits)

lemma rx2_first_int_supplied:
  "rx2_first_int f k = Inr n \<Longrightarrow>
     \<exists>vec v. f k = Inr vec \<and> spec_first_element vec = Inr v \<and> spec_int v = Inr n"
  by (auto simp: rx2_first_int_def py_getitem_first py_int_spec split: sum.splits)

lemma item_positional:
  "item obj i = Inr v \<Longrightarrow> \<exists>vals. positional obj = Some vals \<and> i < length vals \<and> vals ! i = v"
  by (auto simp: item_def split: option.splits if_splits)

lemma scan_names_supplied:
  assumes none: "mapping r = None" "attr_rx2 r = None"
    and named: "attr_names r = Some named" "names_list named = Inr names"
    and scan: "scan_names r 0 names Map.empty = Inr d"
    and k: "PyStr k \<in> set names" "k = ''min_year'' \<or> k = ''max_year''"
  shows "\<exists>n. d k = Some n \<and> supplied r k n"
proof -
  from scan_names_last [OF scan k] obtain i v n where i:
    "i < length names" "names ! i = PyStr k"
    "\<forall>j. i < j \<and> j < length names \<longrightarrow> names ! j \<noteq> PyStr k"
    "item r i = Inr v" "py_int v = Inr n" "d k = Some n"
    by auto
  from item_positional [OF i(4)] obtain vals where vals:
    "positional r = Some vals" "i < length vals" "vals ! i = v"
    by blast
  from named(2) have "spec_names named = Inr names"
    by (simp add: names_list_spec)
  with none named(1) i(1-3,5) vals have "supplied r k n"
    unfolding supplied_def by (auto simp: py_int_spec)
  with i(6) show ?thesis by blast
qed

lemma normalize_years_supplied:
  assumes ok: "normalize_years r = Inr d"
    and shape: "mapping r \<noteq> None \<or> attr_rx2 r \<noteq> None \<or>
      (\<exists>names. names_list (getattr_names r) = Inr names \<and>
         PyStr ''min_year'' \<in> set names \<and> PyStr ''max_year'' \<in> set names)"
  shows "\<exists>lo hi. d = [''min_year'' \<mapsto> lo, ''max_year'' \<mapsto> hi] \<and>
           supplied r ''min_year'' lo \<and> supplied r ''max_year'' hi"
proof (cases "mapping r")
  case (Some m)
  with ok obtain lo hi where v:
    "dict_int m ''min_year'' = Inr lo" "dict_int m ''max_year'' = Inr hi"
    "d = [''min_year'' \<mapsto> lo, ''max_year'' \<mapsto> hi]"
    by (auto simp: normalize_years_def split: sum.splits)
  from dict_int_supplied [OF v(1)] dict_int_supplied [OF v(2)] Some
  have "supplied r ''min_year'' lo" "supplied r ''max_year'' hi"
    by (simp_all add: supplied_def)
  with v(3) show ?thesis by blast
next
  case None
  show ?thesis
  proof (cases "attr_rx2 r")
    case (Some f)
    with None ok obtain lo hi where v:
      "rx2_first_int f ''min_year'' = Inr lo" "rx2_first_int f ''max_year'' = Inr hi"
      "d = [''min_year'' \<mapsto> lo, ''max_year'' \<mapsto> hi]"
      by (auto simp: normalize_years_def split: sum.splits)
    from rx2_first_int_supplied [OF v(1)] rx2_first_int_supplied [OF v(2)] None Some
    have "supplied r ''min_year'' lo" "supplied r ''max_year'' hi"
      by (simp_all add: supplied_def)
    with v(3) show ?thesis by blast
  next
    case no_rx2: None
    with None shape obtain names where names:
      "names_list (getattr_names r) = Inr names"
      "PyStr ''min_year'' \<in> set names" "PyStr ''max_year'' \<in> set names"
      by auto
    from names(1) obtain named where named:
      "attr_names r = Some named" "names_list named = Inr names"
      by (cases "attr_names r") (simp_all add: getattr_names_def)
    from None no_rx2 ok names(1) have scan: "scan_names r 0 names Map.empty = Inr d"
      by (simp add: normalize_years_def Let_def split: if_splits)
    from scan_names_supplied [OF None no_rx2 named scan names(2)]
    obtain lo where lo: "d ''min_year'' = Some lo" "supplied r ''min_year'' lo"
      by auto
    from scan_names_supplied [OF None no_rx2 named scan names(3)]
    obtain hi where hi: "d ''max_year'' = Some hi" "supplied r ''max_year'' hi"
      by auto
    from scan_names_dom [OF scan] year_keys_both [OF names(2,3)]
    have dom: "dom d = {''min_year'', ''max_year''}"
      by simp
    have "d = [''min_year'' \<mapsto> lo, ''max_year'' \<mapsto> hi]"
    proof
      fix x
      show "d x = [''min_year'' \<mapsto> lo, ''max_year'' \<mapsto> hi] x"
      proof (cases "x = ''min_year'' \<or> x = ''max_year''")
        case True
        with lo(1) hi(1) show ?thesis by auto
      next
        case False
        with dom have "x \<notin> dom d" by simp
        with False show ?thesis by (simp add: domIff)
      qed
    qed
    with lo(2) hi(2) show ?thesis by blast
  qed
qed

lemma year_overwritten:
  "[''max_year'' \<mapsto> 1999, ''min_year'' \<mapsto> 2015, ''max_year'' \<mapsto> 2025] =
     [''min_year'' \<mapsto> 2015 :: int, ''max_year'' \<mapsto> 2025]"
  by (rule ext) simp

lemma to_pandas_table:
  assumes conv: "\<And>t v. rpy2py br (RDataFrame t) = Inr v \<Longrightarrow> is_pandas v"
    and tab: "is_table r" and ret: "to_pandas br r = Inr v"
  shows "is_pandas v"
proof (cases r)
  case (PandasDataFrame t)
  with ret show ?thesis by (auto simp: to_pandas_def)
next
  case (RDataFrame t)
  with ret have "rpy2py br (RDataFrame t) = Inr v"
    by (simp add: to_pandas_def split: sum.splits)
  then show ?thesis by (rule conv)
next
  case (NonTabular s)
  with tab show ?thesis by simp
qed

lemma sample_bridge_fields:
  "int_vector (sample_bridge pkg) = sample_int_vector"
  "py2rpy (sample_bridge pkg) = sample_py2rpy"
  "rpy2py (sample_bridge pkg) = sample_rpy2py"
  by (simp_all add: sample_bridge_def)

lemma sample_pkg_fields:
  "r_fetch_enr (sample_pkg tb r) end_year = Inr tb"
  "r_fetch_enr_multi (sample_pkg tb r) r_years = Inr tb"
  "r_tidy_enr (sample_pkg tb r) r_df = Inr tb"
  "r_get_available_years (sample_pkg tb r) = Inr r"
  by (simp_all add: sample_pkg_def)

lemma failing_pkg_fields:
  "r_fetch_enr (failing_pkg e) end_year = Inl e"
  "r_fetch_enr_multi (failing_pkg e) r_years = Inl e"
  "r_tidy_enr (failing_pkg e) r_df = Inl e"
  "r_get_available_years (failing_pkg e) = Inl e"
  by (simp_all add: failing_pkg_def)

subsection \<open>The keys and the values of the year range\<close>

text \<open>
  C1, as amended. When \<^verbatim>\<open>get_available_years\<close> returns for a value that is a native
  mapping, or has \<^verbatim>\<open>rx2\<close>, or has names among which both \<^verbatim>\<open>min_year\<close> and
  \<^verbatim>\<open>max_year\<close> occur, the dictionary returned has exactly the two keys \<^verbatim>\<open>min_year\<close> and
  \<^verbatim>\<open>max_year\<close>, and under each the integer coercion of what the value supplies under
  that name: the entry of the mapping, or the first element of the extraction by name,
  or the positional value at the last position that bears the name. The two years are
  not compared: the reversed mapping is returned reversed. (As stated, the claim also
  fails on names without a year, which give the empty dictionary.)
\<close>

theorem year_range_keys:
  assumes "get_pkg br w = (Inr pkg, w1)" and "r_get_available_years pkg = Inr r"
    and "fst (get_available_years br w) = Inr d"
    and "mapping r \<noteq> None \<or> attr_rx2 r \<noteq> None \<or>
      (\<exists>names. names_list (getattr_names r) = Inr names \<and>
         PyStr ''min_year'' \<in> set names \<and> PyStr ''max_year'' \<in> set names)"
  shows "dom d = {''min_year'', ''max_year''} \<and>
         (\<exists>lo hi. d = [''min_year'' \<mapsto> lo, ''max_year'' \<mapsto> hi] \<and>
            supplied r ''min_year'' lo \<and> supplied r ''max_year'' hi)"
proof -
  have ok: "normalize_years r = Inr d"
    using assms(1-3) by (simp add: get_available_years_normalize)
  from ok assms(4) have "dom d = {''min_year'', ''max_year''}"
    by (rule normalize_years_dom)
  moreover from ok assms(4) have
    "\<exists>lo hi. d = [''min_year'' \<mapsto> lo, ''max_year'' \<mapsto> hi] \<and>
       supplied r ''min_year'' lo \<and> supplied r ''max_year'' hi"
    by (rule normalize_years_supplied)
  ultimately show ?thesis by blast
qed

theorem year_range_keys_witness:
  "fst (get_available_years (sample_bridge (sample_pkg (RDataFrame sample_table) years_named_twice))
     initial_world) = Inr [''min_year'' \<mapsto> 2015, ''max_year'' \<mapsto> 2025] \<and>
   dom [''min_year'' \<mapsto> 2015 :: int, ''max_year'' \<mapsto> 2025] = {''min_year'', ''max_year''} \<and>
   (\<exists>lo hi. [''min_year'' \<mapsto> 2015, ''max_year'' \<mapsto> 2025] =
        [''min_year'' \<mapsto> lo, ''max_year'' \<mapsto> hi] \<and>
      supplied years_named_twice ''min_year'' lo \<and> supplied years_named_twice ''max_year'' hi)"
proof -
  let ?pkg = "sample_pkg (RDataFrame sample_table) years_named_twice"
  let ?d = "[''min_year'' \<mapsto> 2015 :: int, ''max_year'' \<mapsto> 2025]"
  have r: "r_get_available_years ?pkg = Inr years_named_twice"
    by (simp add: sample_pkg_def)
  have text_year: "int_of_str '' 2_015 '' = Inr 2015"
    by (simp add: int_of_str_def strip_def is_space_def is_digit_def digit_val_def)
  have n: "normalize_years years_named_twice = Inr ?d"
    by (simp add: normalize_years_def years_named_twice_def getattr_names_def item_def
        text_year year_overwritten)
  have res: "fst (get_available_years (sample_bridge ?pkg) initial_world) = Inr ?d"
    using get_available_years_normalize [OF sample_get_pkg r] n by simp
  have shape: "mapping years_named_twice \<noteq> None \<or> attr_rx2 years_named_twice \<noteq> None \<or>
      (\<exists>names. names_list (getattr_names years_named_twice) = Inr names \<and>
         PyStr ''min_year'' \<in> set names \<and> PyStr ''max_year'' \<in> set names)"
    by (simp add: years_named_twice_def getattr_names_def)
  have keys: "dom ?d = {''min_year'', ''max_year''} \<and>
      (\<exists>lo hi. ?d = [''min_year'' \<mapsto> lo, ''max_year'' \<mapsto> hi] \<and>
         supplied years_named_twice ''min_year'' lo \<and> supplied years_named_twice ''max_year'' hi)"
    by (rule year_range_keys [OF sample_get_pkg r res shape])
  from res keys show ?thesis by (rule conjI)
qed

theorem year_range_counterexample:
  "fst (get_available_years (sample_bridge (sample_pkg (RDataFrame sample_table) years_reversed))
     initial_world) = Inr [''min_year'' \<mapsto> 2025, ''max_year'' \<mapsto> 2015] \<and>
   \<not> (2025 \<le> (2015 :: int)) \<and>
   fst (get_available_years (sample_bridge (sample_pkg (RDataFrame sample_table) other_names_only))
     initial_world) = Inr Map.empty \<and>
   dom (Map.empty :: string \<rightharpoonup> int) \<noteq> {''min_year'', ''max_year''}"
proof -
  have a: "normalize_years years_reversed = Inr [''min_year'' \<mapsto> 2025, ''max_year'' \<mapsto> 2015]"
    by (simp add: normalize_years_def years_reversed_def dict_int_def dict_get_def)
  have b: "normalize_years other_names_only = Inr Map.empty"
    by (simp add: normalize_years_def other_names_only_def getattr_names_def)
  have "r_get_available_years (sample_pkg (RDataFrame sample_table) years_reversed) =
      Inr years_reversed"
    "r_get_available_years (sample_pkg (RDataFrame sample_table) other_names_only) =
      Inr other_names_only"
    by (simp_all add: sample_pkg_def)
  then show ?thesis
    using a b by (simp add: get_available_years_normalize [OF sample_get_pkg])
qed

subsection \<open>The error for an unrecognized value\<close>

text \<open>
  C2. \<^verbatim>\<open>get_available_years\<close> raises the \<^verbatim>\<open>TypeError\<close> of line 148 exactly when the R
  function returned a value that is no mapping, has no \<^verbatim>\<open>rx2\<close> and has no names (or
  \<^verbatim>\<open>None\<close> for names), and the error carries the type of that value. A plain integer is
  such a value.
\<close>

theorem unexpected_return_type_iff:
  "fst (get_available_years br w) = Inl (TypeError (UnexpectedReturnType t)) \<longleftrightarrow>
     (\<exists>pkg r. fst (get_pkg br w) = Inr pkg \<and> r_get_available_years pkg = Inr r \<and>
        mapping r = None \<and> attr_rx2 r = None \<and> getattr_names r = PyNone \<and> t = obj_type r)"
proof (cases "get_pkg br w")
  case (Pair res w1)
  show ?thesis
  proof (cases res)
    case (Inl e)
    with Pair show ?thesis
      by (auto simp: get_available_years_def get_pkg_def split: option.splits sum.splits)
  next
    case (Inr pkg)
    show ?thesis
    proof (cases "r_get_available_years pkg")
      case (Inl e)
      with Pair Inr show ?thesis by (simp add: get_available_years_def)
    next
      case r: (Inr r)
      with Pair Inr show ?thesis
        by (simp add: get_available_years_def normalize_years_unexpected)
    qed
  qed
qed

theorem unexpected_return_type_witness:
  "fst (get_available_years (sample_bridge (sample_pkg (RDataFrame sample_table) (plain_int 7)))
     initial_world) = Inl (TypeError (UnexpectedReturnType ''int''))"
proof -
  let ?pkg = "sample_pkg (RDataFrame sample_table) (plain_int 7)"
  have "fst (get_pkg (sample_bridge ?pkg) initial_world) = Inr ?pkg \<and>
        r_get_available_years ?pkg = Inr (plain_int 7) \<and>
        mapping (plain_int 7) = None \<and> attr_rx2 (plain_int 7) = None \<and>
        getattr_names (plain_int 7) = PyNone \<and> ''int'' = obj_type (plain_int 7)"
    by (simp add: sample_get_pkg sample_pkg_def plain_int_def getattr_names_def)
  then show ?thesis
    using unexpected_return_type_iff
      [of "sample_bridge ?pkg" initial_world "''int''"]
    by blast
qed

subsection \<open>The package is loaded once\<close>

text \<open>
  C3. In any state reached by calls of the module, once \<^verbatim>\<open>_get_pkg\<close> has returned a
  handle, the package has been loaded exactly once; a second call returns the same
  handle and leaves the state as it is; and after any further calls the package has
  still been loaded once, \<^verbatim>\<open>importr\<close> has not been called again, and \<^verbatim>\<open>_get_pkg\<close> still returns that handle.
\<close>

theorem get_pkg_lazy_singleton:
  assumes reach: "w = run_calls br cs initial_world"
    and first: "get_pkg br w = (Inr p, w1)"
  shows "loads w1 = 1 \<and> get_pkg br w1 = (Inr p, w1) \<and>
         loads (run_calls br later w1) = 1 \<and>
         import_attempts (run_calls br later w1) = import_attempts w1 \<and>
         get_pkg br (run_calls br later w1) = (Inr p, run_calls br later w1)"
proof -
  have "cache_consistent w"
    using reach by (simp add: run_calls_consistent initial_consistent)
  then have "cache_consistent (snd (get_pkg br w))"
    by (rule get_pkg_consistent)
  with first have cons: "cache_consistent w1" by simp
  have cached: "pkg_global w1 = Some p"
    using first by (rule get_pkg_Inr)
  from cons cached have one: "loads w1 = 1"
    by (simp add: cache_consistent_def)
  from run_calls_keeps_handle [OF cached, of br later] one
  have later: "pkg_global (run_calls br later w1) = Some p" "loads (run_calls br later w1) = 1"
    "import_attempts (run_calls br later w1) = import_attempts w1"
    by simp_all
  from one cached later show ?thesis
    by (simp add: get_pkg_cached)
qed

theorem get_pkg_lazy_singleton_witness:
  "get_pkg (sample_bridge (sample_pkg (RDataFrame sample_table) years_dict)) initial_world =
     (Inr (sample_pkg (RDataFrame sample_table) years_dict),
      \<lparr>pkg_global = Some (sample_pkg (RDataFrame sample_table) years_dict),
       trace = [Import ''meschooldata'' True]\<rparr>) \<and>
   loads \<lparr>pkg_global = Some (sample_pkg (RDataFrame sample_table) years_dict),
          trace = [Import ''meschooldata'' True]\<rparr> = 1 \<and>
   loads (run_calls (sample_bridge (sample_pkg (RDataFrame sample_table) years_dict))
          [FetchEnr (PyInt 2025), GetAvailableYears, GetPkg]
          \<lparr>pkg_global = Some (sample_pkg (RDataFrame sample_table) years_dict),
           trace = [Import ''meschooldata'' True]\<rparr>) = 1 \<and>
   fst (get_pkg (sample_bridge (sample_pkg (RDataFrame sample_table) years_dict))
        (run_calls (sample_bridge (sample_pkg (RDataFrame sample_table) years_dict))
          [FetchEnr (PyInt 2025), GetAvailableYears, GetPkg]
          \<lparr>pkg_global = Some (sample_pkg (RDataFrame sample_table) years_dict),
           trace = [Import ''meschooldata'' True]\<rparr>)) =
     Inr (sample_pkg (RDataFrame sample_table) years_dict)"
proof -
  let ?pkg = "sample_pkg (RDataFrame sample_table) years_dict"
  have start: "initial_world = run_calls (sample_bridge ?pkg) [] initial_world"
    by simp
  show ?thesis
    using get_pkg_lazy_singleton [OF start sample_get_pkg,
        of "[FetchEnr (PyInt 2025), GetAvailableYears, GetPkg]"]
      sample_get_pkg [of ?pkg]
    by simp
qed

subsection \<open>The order of the shapes\<close>

text \<open>
  C4. Whatever the R function returns, \<^verbatim>\<open>get_available_years\<close> decodes it as the
  specification's policy says: the first shape that applies, in the order native
  mapping, name-indexed extraction (first element of each extraction, coerced), names
  beside positional values (the coerced value at each position named \<^verbatim>\<open>min_year\<close> or
  \<^verbatim>\<open>max_year\<close>), and failure otherwise. The policy is \<open>spec_normalize\<close>, written
  without the definitions made from the source. The sample values are: one with all
  three shapes and different years in each; an R list, whose extraction has two
  elements and floats; names and values with a name twice and a year as text; and a
  plain integer.
\<close>

theorem get_available_years_policy:
  assumes "get_pkg br w = (Inr pkg, w1)" and "r_get_available_years pkg = Inr r"
  shows "fst (get_available_years br w) = spec_normalize r"
  using assms by (simp add: get_available_years_normalize normalize_years_spec)

theorem get_available_years_policy_witness:
  "fst (get_available_years (sample_bridge (sample_pkg (RDataFrame sample_table) years_every_shape))
     initial_world) = Inr [''min_year'' \<mapsto> 2015, ''max_year'' \<mapsto> 2025] \<and>
   fst (get_available_years (sample_bridge (sample_pkg (RDataFrame sample_table) years_list_vector))
     initial_world) = Inr [''min_year'' \<mapsto> 2015, ''max_year'' \<mapsto> 2025] \<and>
   fst (get_available_years (sample_bridge (sample_pkg (RDataFrame sample_table) years_named_twice))
     initial_world) = Inr [''min_year'' \<mapsto> 2015, ''max_year'' \<mapsto> 2025] \<and>
   fst (get_available_years (sample_bridge (sample_pkg (RDataFrame sample_table) (plain_int 7)))
     initial_world) = Inl (TypeError (UnexpectedReturnType ''int''))"
proof -
  have every: "spec_normalize years_every_shape =
      Inr [''min_year'' \<mapsto> 2015, ''max_year'' \<mapsto> 2025]"
    by (simp add: spec_normalize_def first_shape_def years_every_shape_def spec_year_range_def
        spec_coerce_def spec_lookup_def spec_int_def)
  have half: "\<lfloor>(4051 :: rat) / 2\<rfloor> = (2025 :: int)"
    by (rule floor_unique) simp_all
  have vector: "spec_normalize years_list_vector =
      Inr [''min_year'' \<mapsto> 2015, ''max_year'' \<mapsto> 2025]"
    by (simp add: spec_normalize_def first_shape_def years_list_vector_def spec_year_range_def
        spec_coerce_def spec_first_def spec_first_element_def spec_int_def half)
  have text_year: "spec_int_of_str '' 2_015 '' = Inr 2015"
    by (simp add: spec_int_of_str_def spec_strip_def spec_whitespace_def spec_well_formed_def
        spec_decimal_value_def spec_digit_value_def)
  have twice: "spec_normalize years_named_twice =
      Inr [''min_year'' \<mapsto> 2015, ''max_year'' \<mapsto> 2025]"
    by (simp add: spec_normalize_def first_shape_def years_named_twice_def spec_names_def
        spec_record_def spec_coerce_def spec_value_at_def
        spec_int_def text_year year_overwritten)
  have plain: "spec_normalize (plain_int 7) = Inl (TypeError (UnexpectedReturnType ''int''))"
    by (simp add: spec_normalize_def first_shape_def plain_int_def)
  from every vector twice plain show ?thesis
    using get_available_years_policy [OF sample_get_pkg sample_pkg_fields(4)]
    by simp
qed

subsection \<open>Tables are returned as pandas data frames\<close>

text \<open>
  C5. On a bridge whose \<^verbatim>\<open>rpy2py\<close> turns an R data frame into a pandas
  \<^verbatim>\<open>DataFrame\<close>, whenever the R function answers with a table, converted already or
  not, what \<^verbatim>\<open>fetch_enr\<close>, \<^verbatim>\<open>fetch_enr_multi\<close> and \<^verbatim>\<open>tidy_enr\<close> return is a pandas
  \<^verbatim>\<open>DataFrame\<close>.
\<close>

theorem returned_tables_are_pandas:
  assumes frames: "\<forall>t v. rpy2py br (RDataFrame t) = Inr v \<longrightarrow> is_pandas v"
    and pkg: "get_pkg br w = (Inr pkg, w1)"
  shows "(r_fetch_enr pkg end_year = Inr ra \<and> is_table ra \<and>
            fst (fetch_enr br end_year w) = Inr va \<longrightarrow> is_pandas va) \<and>
         (int_vector br end_years = Inr r_years \<and> r_fetch_enr_multi pkg r_years = Inr rb \<and>
            is_table rb \<and> fst (fetch_enr_multi br end_years w) = Inr vb \<longrightarrow> is_pandas vb) \<and>
         (py2rpy br df = Inr r_df \<and> r_tidy_enr pkg r_df = Inr rc \<and> is_table rc \<and>
            fst (tidy_enr br df w) = Inr vc \<longrightarrow> is_pandas vc)"
proof -
  from frames have conv: "\<And>t v. rpy2py br (RDataFrame t) = Inr v \<Longrightarrow> is_pandas v"
    by blast
  have single: "is_pandas va"
    if "r_fetch_enr pkg end_year = Inr ra" "is_table ra" "fst (fetch_enr br end_year w) = Inr va"
  proof -
    from pkg that have "to_pandas br ra = Inr va"
      by (simp add: fetch_enr_def)
    with conv that(2) show ?thesis by (rule to_pandas_table)
  qed
  have multi: "is_pandas vb"
    if "int_vector br end_years = Inr r_years" "r_fetch_enr_multi pkg r_years = Inr rb"
      "is_table rb" "fst (fetch_enr_multi br end_years w) = Inr vb"
  proof -
    from pkg that have "to_pandas br rb = Inr vb"
      by (simp add: fetch_enr_multi_def)
    with conv that(3) show ?thesis by (rule to_pandas_table)
  qed
  have tidy: "is_pandas vc"
    if "py2rpy br df = Inr r_df" "r_tidy_enr pkg r_df = Inr rc" "is_table rc"
      "fst (tidy_enr br df w) = Inr vc"
  proof -
    from pkg that have "to_pandas br rc = Inr vc"
      by (simp add: tidy_enr_def)
    with conv that(3) show ?thesis by (rule to_pandas_table)
  qed
  from single multi tidy show ?thesis by blast
qed

theorem returned_tables_are_pandas_witness:
  "fst (fetch_enr (sample_bridge (sample_pkg (RDataFrame sample_table) years_dict))
      (PyInt 2025) initial_world) = Inr (PandasDataFrame sample_table) \<and>
   fst (fetch_enr_multi (sample_bridge (sample_pkg (PandasDataFrame sample_table) years_dict))
      (PySeq [PyInt 2024, PyInt 2025]) initial_world) = Inr (PandasDataFrame sample_table) \<and>
   fst (tidy_enr (sample_bridge (sample_pkg (RDataFrame sample_table) years_dict))
      (PandasDataFrame sample_table) initial_world) = Inr (PandasDataFrame sample_table) \<and>
   is_pandas (PandasDataFrame sample_table)"
proof -
  let ?raw = "sample_pkg (RDataFrame sample_table) years_dict"
  let ?conv = "sample_pkg (PandasDataFrame sample_table) years_dict"
  have a: "r_fetch_enr ?raw (PyInt 2025) = Inr (RDataFrame sample_table) \<and>
      is_table (RDataFrame sample_table) \<and>
      fst (fetch_enr (sample_bridge ?raw) (PyInt 2025) initial_world) =
        Inr (PandasDataFrame sample_table)"
    by (simp add: fetch_enr_def sample_get_pkg sample_pkg_fields to_pandas_def
        sample_bridge_fields)
  have b: "fst (fetch_enr_multi (sample_bridge ?conv) (PySeq [PyInt 2024, PyInt 2025])
      initial_world) = Inr (PandasDataFrame sample_table)"
    by (simp add: fetch_enr_multi_def sample_get_pkg sample_pkg_fields to_pandas_def
        sample_bridge_fields)
  have c: "fst (tidy_enr (sample_bridge ?raw) (PandasDataFrame sample_table) initial_world) =
      Inr (PandasDataFrame sample_table)"
    by (simp add: tidy_enr_def sample_get_pkg sample_pkg_fields to_pandas_def
        sample_bridge_fields)
  have conv: "\<forall>t v. rpy2py (sample_bridge ?raw) (RDataFrame t) = Inr v \<longrightarrow> is_pandas v"
    by (auto simp: sample_bridge_fields)
  from returned_tables_are_pandas
    [where end_year = "PyInt 2025" and ra = "RDataFrame sample_table"
      and va = "PandasDataFrame sample_table", OF conv sample_get_pkg] a
  have "is_pandas (PandasDataFrame sample_table)" by blast
  with a b c show ?thesis by simp
qed

subsection \<open>One year through either path\<close>

text \<open>
  C6. If, for the package in use, the multi-year function applied to the vector
  built from \<^verbatim>\<open>[Y]\<close> answers what the single-year function answers for \<^verbatim>\<open>Y\<close>, then
  \<^verbatim>\<open>fetch_enr_multi([Y])\<close> and \<^verbatim>\<open>fetch_enr(Y)\<close> return the same, and leave \<^verbatim>\<open>_pkg\<close> the
  same.
\<close>

theorem fetch_enr_multi_single:
  assumes agree: "\<And>pkg. fst (get_pkg br w) = Inr pkg \<Longrightarrow>
      (case int_vector br (PySeq [PyInt y]) of
         Inl e \<Rightarrow> Inl e
       | Inr r_years \<Rightarrow> r_fetch_enr_multi pkg r_years) = r_fetch_enr pkg (PyInt y)"
  shows "fst (fetch_enr_multi br (PySeq [PyInt y]) w) = fst (fetch_enr br (PyInt y) w) \<and>
         pkg_global (snd (fetch_enr_multi br (PySeq [PyInt y]) w)) =
           pkg_global (snd (fetch_enr br (PyInt y) w))"
proof (cases "get_pkg br w")
  case (Pair res w1)
  show ?thesis
  proof (cases res)
    case (Inl e)
    with Pair show ?thesis by (simp add: fetch_enr_multi_def fetch_enr_def)
  next
    case (Inr pkg)
    with Pair have "fst (get_pkg br w) = Inr pkg" by simp
    from agree [OF this] Pair Inr show ?thesis
      by (auto simp: fetch_enr_multi_def fetch_enr_def split: sum.splits)
  qed
qed

theorem fetch_enr_multi_single_witness:
  "fst (fetch_enr_multi (sample_bridge (sample_pkg (RDataFrame sample_table) years_dict))
      (PySeq [PyInt 2025]) initial_world) = Inr (PandasDataFrame sample_table) \<and>
   fst (fetch_enr (sample_bridge (sample_pkg (RDataFrame sample_table) years_dict))
      (PyInt 2025) initial_world) = Inr (PandasDataFrame sample_table)"
proof -
  let ?pkg = "sample_pkg (RDataFrame sample_table) years_dict"
  have agree: "\<And>pkg. fst (get_pkg (sample_bridge ?pkg) initial_world) = Inr pkg \<Longrightarrow>
      (case int_vector (sample_bridge ?pkg) (PySeq [PyInt 2025]) of
         Inl e \<Rightarrow> Inl e
       | Inr r_years \<Rightarrow> r_fetch_enr_multi pkg r_years) = r_fetch_enr pkg (PyInt 2025)"
    by (auto simp: sample_get_pkg sample_bridge_fields sample_pkg_fields)
  have single: "fst (fetch_enr (sample_bridge ?pkg) (PyInt 2025) initial_world) =
      Inr (PandasDataFrame sample_table)"
    by (simp add: fetch_enr_def sample_get_pkg sample_pkg_fields to_pandas_def
        sample_bridge_fields)
  from fetch_enr_multi_single [of "sample_bridge ?pkg" initial_world 2025, OF agree] single
  show ?thesis by simp
qed

subsection \<open>The two sample normalizations\<close>

text \<open>
  C7. The plain mapping \<^verbatim>\<open>{min_year: 2015, max_year: 2025}\<close> is normalized to
  \<^verbatim>\<open>{"min_year": 2015, "max_year": 2025}\<close>, and so is the object that has only the
  names \<^verbatim>\<open>["min_year", "max_year"]\<close> beside the values \<^verbatim>\<open>[2015, 2025]\<close>.
\<close>

theorem normalize_years_samples:
  "normalize_years years_dict = Inr [''min_year'' \<mapsto> 2015, ''max_year'' \<mapsto> 2025] \<and>
   normalize_years years_names_only = Inr [''min_year'' \<mapsto> 2015, ''max_year'' \<mapsto> 2025]"
  by (simp add: normalize_years_def years_dict_def years_names_only_def dict_int_def
      dict_get_def getattr_names_def item_def)

subsection \<open>Failures of the package reach the caller\<close>

text \<open>
  C8. Once the handle is there, a failure \<open>e\<close> of the R function that an operation
  calls is what the operation raises, as it is; the function has been called once, and
  nothing is returned.
\<close>

theorem foreign_failure_propagates:
  assumes pkg: "get_pkg br w = (Inr pkg, w1)"
  shows "(r_fetch_enr pkg end_year = Inl ea \<longrightarrow>
            fetch_enr br end_year w = (Inl (Foreign ea), log_event (Call ''fetch_enr'') w1)) \<and>
         (int_vector br end_years = Inr r_years \<and> r_fetch_enr_multi pkg r_years = Inl eb \<longrightarrow>
            fetch_enr_multi br end_years w =
              (Inl (Foreign eb), log_event (Call ''fetch_enr_multi'') w1)) \<and>
         (py2rpy br df = Inr r_df \<and> r_tidy_enr pkg r_df = Inl ec \<longrightarrow>
            tidy_enr br df w = (Inl (Foreign ec), log_event (Call ''tidy_enr'') w1)) \<and>
         (r_get_available_years pkg = Inl ed \<longrightarrow>
            get_available_years br w =
              (Inl (Foreign ed), log_event (Call ''get_available_years'') w1))"
  using pkg
  by (simp add: fetch_enr_def fetch_enr_multi_def tidy_enr_def get_available_years_def)

theorem foreign_failure_propagates_witness:
  "fetch_enr (sample_bridge (failing_pkg r_error)) (PyInt 2025) initial_world =
     (Inl (Foreign r_error),
      \<lparr>pkg_global = Some (failing_pkg r_error),
       trace = [Import ''meschooldata'' True, Call ''fetch_enr'']\<rparr>) \<and>
   fetch_enr_multi (sample_bridge (failing_pkg r_error)) (PySeq [PyInt 2024, PyInt 2025])
       initial_world =
     (Inl (Foreign r_error),
      \<lparr>pkg_global = Some (failing_pkg r_error),
       trace = [Import ''meschooldata'' True, Call ''fetch_enr_multi'']\<rparr>) \<and>
   tidy_enr (sample_bridge (failing_pkg r_error)) (PandasDataFrame sample_table) initial_world =
     (Inl (Foreign r_error),
      \<lparr>pkg_global = Some (failing_pkg r_error),
       trace = [Import ''meschooldata'' True, Call ''tidy_enr'']\<rparr>) \<and>
   get_available_years (sample_bridge (failing_pkg r_error)) initial_world =
     (Inl (Foreign r_error),
      \<lparr>pkg_global = Some (failing_pkg r_error),
       trace = [Import ''meschooldata'' True, Call ''get_available_years'']\<rparr>)"
proof -
  let ?pkg = "failing_pkg r_error"
  let ?br = "sample_bridge ?pkg"
  have fails: "r_fetch_enr ?pkg (PyInt 2025) = Inl r_error"
    "int_vector ?br (PySeq [PyInt 2024, PyInt 2025]) = Inr [2024, 2025] \<and>
       r_fetch_enr_multi ?pkg [2024, 2025] = Inl r_error"
    "py2rpy ?br (PandasDataFrame sample_table) = Inr (RDataFrame sample_table) \<and>
       r_tidy_enr ?pkg (RDataFrame sample_table) = Inl r_error"
    "r_get_available_years ?pkg = Inl r_error"
    by (simp_all add: failing_pkg_fields sample_bridge_fields)
  from foreign_failure_propagates
    [where end_year = "PyInt 2025" and ea = r_error
      and end_years = "PySeq [PyInt 2024, PyInt 2025]" and r_years = "[2024, 2025]"
      and eb = r_error and df = "PandasDataFrame sample_table"
      and r_df = "RDataFrame sample_table" and ec = r_error and ed = r_error,
      OF sample_get_pkg]
    fails
  show ?thesis by (simp add: log_event_def)
qed

subsection \<open>Names without a year\<close>

text \<open>
  C9. When the value is no mapping, has no \<^verbatim>\<open>rx2\<close>, and has names other than
  \<^verbatim>\<open>None\<close> among which neither \<^verbatim>\<open>min_year\<close> nor \<^verbatim>\<open>max_year\<close> occurs,
  \<^verbatim>\<open>get_available_years\<close> returns the empty dictionary and raises nothing.
\<close>

theorem names_without_years_empty:
  assumes "get_pkg br w = (Inr pkg, w1)" and "r_get_available_years pkg = Inr r"
    and "mapping r = None" and "attr_rx2 r = None"
    and "attr_names r = Some v" and "v \<noteq> PyNone" and "names_list v = Inr names"
    and "PyStr ''min_year'' \<notin> set names" and "PyStr ''max_year'' \<notin> set names"
  shows "fst (get_available_years br w) = Inr Map.empty"
proof -
  have "\<forall>n \<in> set names. year_key n = None"
    using assms(8,9) by (auto simp: year_key_None)
  then have "scan_names r 0 names Map.empty = Inr Map.empty"
    by (rule scan_names_no_years)
  then have "normalize_years r = Inr Map.empty"
    using assms(3-7) by (simp add: normalize_years_def getattr_names_def)
  then show ?thesis
    using assms(1,2) by (simp add: get_available_years_normalize)
qed

theorem names_without_years_empty_witness:
  "fst (get_available_years (sample_bridge (sample_pkg (RDataFrame sample_table) other_names_only))
     initial_world) = Inr Map.empty"
proof -
  let ?pkg = "sample_pkg (RDataFrame sample_table) other_names_only"
  let ?v = "PySeq [PyStr ''first'', PyStr ''last'']"
  have r: "r_get_available_years ?pkg = Inr other_names_only"
    by (simp add: sample_pkg_def)
  have a: "mapping other_names_only = None" "attr_rx2 other_names_only = None"
    "attr_names other_names_only = Some ?v" "?v \<noteq> PyNone"
    "names_list ?v = Inr [PyStr ''first'', PyStr ''last'']"
    "PyStr ''min_year'' \<notin> set [PyStr ''first'', PyStr ''last'']"
    "PyStr ''max_year'' \<notin> set [PyStr ''first'', PyStr ''last'']"
    by (simp_all add: other_names_only_def)
  show ?thesis
    by (rule names_without_years_empty [OF sample_get_pkg r a])
qed

subsection \<open>A failed load is not remembered\<close>

text \<open>
  C10. When \<^verbatim>\<open>_pkg\<close> is unset and \<^verbatim>\<open>importr\<close> fails, \<^verbatim>\<open>_get_pkg\<close> raises that failure
  and every operation raises it too, \<^verbatim>\<open>_pkg\<close> stays unset, and the next call of any
  operation calls \<^verbatim>\<open>importr\<close> once more.
\<close>

theorem failed_load_not_cached:
  assumes unset: "pkg_global w = None"
    and fails: "importr br (import_attempts w) ''meschooldata'' = Inl e"
  shows "get_pkg br w = (Inl (Foreign e), log_event (Import ''meschooldata'' False) w) \<and>
         fst (run_call br c w) = Inl (Foreign e) \<and>
         pkg_global (snd (run_call br c w)) = None \<and>
         import_attempts (snd (run_call br' c' (snd (run_call br c w)))) =
           Suc (import_attempts (snd (run_call br c w)))"
proof -
  have g: "get_pkg br w = (Inl (Foreign e), log_event (Import ''meschooldata'' False) w)"
    using unset fails by (simp add: get_pkg_def)
  have r: "fst (run_call br c w) = Inl (Foreign e)"
    using g by (cases c)
      (simp_all add: returning_def fetch_enr_def fetch_enr_multi_def tidy_enr_def
        get_available_years_def)
  have n: "pkg_global (snd (run_call br c w)) = None"
    using g unset by (simp add: run_call_cache)
  have "import_attempts (snd (run_call br' c' (snd (run_call br c w)))) =
          Suc (import_attempts (snd (run_call br c w)))"
    using n by (simp add: run_call_attempts get_pkg_attempts)
  with g r n show ?thesis by simp
qed

theorem failed_load_not_cached_witness:
  "fst (run_call (late_bridge (sample_pkg (RDataFrame sample_table) years_dict))
        (FetchEnr (PyInt 2025)) initial_world) =
     Inl (Foreign (ForeignExc ''PackageNotInstalledError'' ''meschooldata'')) \<and>
   pkg_global (snd (run_call (late_bridge (sample_pkg (RDataFrame sample_table) years_dict))
        (FetchEnr (PyInt 2025)) initial_world)) = None \<and>
   import_attempts (snd (run_call (late_bridge (sample_pkg (RDataFrame sample_table) years_dict))
        (FetchEnr (PyInt 2025)) initial_world)) = 1 \<and>
   import_attempts
     (snd (run_call (late_bridge (sample_pkg (RDataFrame sample_table) years_dict)) GetAvailableYears
        (snd (run_call (late_bridge (sample_pkg (RDataFrame sample_table) years_dict))
          (FetchEnr (PyInt 2025)) initial_world)))) = 2"
proof -
  let ?br = "late_bridge (sample_pkg (RDataFrame sample_table) years_dict)"
  have unset: "pkg_global initial_world = None"
    by (simp add: initial_world_def)
  have fails: "importr ?br (import_attempts initial_world) ''meschooldata'' =
      Inl (ForeignExc ''PackageNotInstalledError'' ''meschooldata'')"
    by (simp add: late_bridge_def import_attempts_def initial_world_def)
  have none_yet: "import_attempts initial_world = 0"
    by (simp add: import_attempts_def initial_world_def)
  have first: "import_attempts (snd (run_call ?br (FetchEnr (PyInt 2025)) initial_world)) = 1"
    using run_call_attempts [of ?br "FetchEnr (PyInt 2025)" initial_world]
      get_pkg_attempts [of ?br initial_world] unset none_yet
    by simp
  show ?thesis
    using failed_load_not_cached [OF unset fails, of "FetchEnr (PyInt 2025)" ?br GetAvailableYears]
      first
    by simp
qed

end
